theory Spec2Isabelle
  imports Main
begin

section \<open>JavaScript values\<close>

text \<open>
  The handler of \<^verbatim>\<open>src/tools/workflow/update.ts\<close> receives
  \<^verbatim>\<open>args: Record<string, any>\<close>: the arguments of a tool call, which reach the
  server as JSON. A value is therefore \<^verbatim>\<open>undefined\<close> (what reading an absent
  property gives) or a JSON value.

  \<^item> A number is represented by the text that \<^verbatim>\<open>Number.prototype.toString\<close> gives it
    (\<open>''0''\<close> for both zeros, \<open>''NaN''\<close> for NaN). The handler only tests numbers for
    truthiness, compares them with \<^verbatim>\<open>!==\<close> and interpolates them into a template
    string, and this text decides all three.
  \<^item> A string is a \<open>string\<close> holding the UTF-8 bytes of the JavaScript string. The
    handler only concatenates strings and compares them.
  \<^item> An array or an object carries the address that gives it its identity
    (\<^verbatim>\<open>===\<close> on objects compares references) and its contents.
\<close>

type_synonym ref = nat

datatype jsval =
    JUndefined
  | JNull
  | JBool bool
  | JNumber string
  | JString string
  | JArray ref "jsval list"
  | JObject ref "(string \<times> jsval) list"

text \<open>Truthiness, as \<^verbatim>\<open>!v\<close> and \<^verbatim>\<open>v && ...\<close> read it.\<close>

fun truthy :: "jsval \<Rightarrow> bool" where
  "truthy JUndefined = False"
| "truthy JNull = False"
| "truthy (JBool b) = b"
| "truthy (JNumber n) = (n \<noteq> ''0'' \<and> n \<noteq> ''NaN'')"
| "truthy (JString s) = (s \<noteq> [])"
| "truthy (JArray r xs) = True"
| "truthy (JObject r kvs) = True"

text \<open>\<^verbatim>\<open>Array.isArray(v)\<close>.\<close>

fun isArray :: "jsval \<Rightarrow> bool" where
  "isArray (JArray r xs) = True"
| "isArray v = False"

text \<open>\<^verbatim>\<open>typeof v\<close>: null, arrays and objects all answer \<^verbatim>\<open>"object"\<close>.\<close>

fun typeof :: "jsval \<Rightarrow> string" where
  "typeof JUndefined = ''undefined''"
| "typeof JNull = ''object''"
| "typeof (JBool b) = ''boolean''"
| "typeof (JNumber n) = ''number''"
| "typeof (JString s) = ''string''"
| "typeof (JArray r xs) = ''object''"
| "typeof (JObject r kvs) = ''object''"

text \<open>
  \<^verbatim>\<open>a === b\<close>: NaN equals nothing, arrays and objects are equal when they are the
  same reference, every other value is compared as a value.
\<close>

fun strict_equals :: "jsval \<Rightarrow> jsval \<Rightarrow> bool" where
  "strict_equals (JNumber a) (JNumber b) = (a = b \<and> a \<noteq> ''NaN'')"
| "strict_equals (JArray r xs) (JArray s ys) = (r = s)"
| "strict_equals (JObject r kvs) (JObject s lws) = (r = s)"
| "strict_equals a b = (a = b)"

text \<open>
  The string conversion that a template literal applies to \<^verbatim>\<open>${v}\<close>; \<open>None\<close> is
  a thrown \<^verbatim>\<open>TypeError\<close>. An array is joined with commas, its undefined and null
  elements giving the empty string. A plain object gives \<^verbatim>\<open>[object Object]\<close> through
  \<^verbatim>\<open>Object.prototype.toString\<close>, unless a property of its own named
  \<^verbatim>\<open>toString\<close> hides that method: a JSON value is never callable, so the conversion
  then finds no method that returns a primitive and throws.
\<close>

fun ToString :: "jsval \<Rightarrow> string option"
and joinElements :: "jsval list \<Rightarrow> string option" where
  "ToString JUndefined = Some ''undefined''"
| "ToString JNull = Some ''null''"
| "ToString (JBool b) = Some (if b then ''true'' else ''false'')"
| "ToString (JNumber n) = Some n"
| "ToString (JString s) = Some s"
| "ToString (JArray r xs) = joinElements xs"
| "ToString (JObject r kvs) =
     (if map_of kvs ''toString'' \<noteq> None then None else Some ''[object Object]'')"
| "joinElements [] = Some []"
| "joinElements (x # xs) =
     (case (if x = JUndefined \<or> x = JNull then Some [] else ToString x) of
        None \<Rightarrow> None
      | Some s \<Rightarrow>
          (if xs = [] then Some s
           else case joinElements xs of
                  None \<Rightarrow> None
                | Some t \<Rightarrow> Some (s @ '','' @ t)))"

text \<open>\<^verbatim>\<open>xs.join(sep)\<close> on an array of strings.\<close>

fun join :: "string \<Rightarrow> string list \<Rightarrow> string" where
  "join sep [] = []"
| "join sep [x] = x"
| "join sep (x # y # ys) = x @ sep @ join sep (y # ys)"

text \<open>
  An object read by property name: \<^verbatim>\<open>o.k\<close>, and the destructuring
  \<^verbatim>\<open>const { k } = o\<close>, give \<^verbatim>\<open>undefined\<close> for a property the object lacks.
\<close>

type_synonym object = "string \<rightharpoonup> jsval"

definition getProp :: "object \<Rightarrow> string \<Rightarrow> jsval" where
  "getProp obj k = (case obj k of None \<Rightarrow> JUndefined | Some v \<Rightarrow> v)"

section \<open>Errors, the API service and the remote calls\<close>

text \<open>
  What an operation throws: the \<^verbatim>\<open>N8nApiError\<close> that the handler builds from a
  message, the \<^verbatim>\<open>TypeError\<close> of the runtime, or whatever the API service rejects
  with.
\<close>

datatype 'e thrown = N8nApiError string | TypeError | Rejected 'e

text \<open>
  \<^verbatim>\<open>this.apiService\<close> is a collaborator of the handler and is taken as a parameter:
  each of its two methods answers from the state of the remote system, which it may
  change, with a workflow object or a failure.
\<close>

record ('e, 's) apiService =
  getWorkflow :: "jsval \<Rightarrow> 's \<Rightarrow> ('e thrown + object) \<times> 's"
  updateWorkflow :: "jsval \<Rightarrow> object \<Rightarrow> 's \<Rightarrow> ('e thrown + object) \<times> 's"

text \<open>
  The world the handler runs in: the remote system, and the log of the calls made to
  the API service so far, in order. The log is what "no remote call is made" is
  stated on.
\<close>

datatype call = GetWorkflow jsval | UpdateWorkflow jsval object

record 's world =
  calls :: "call list"
  remote :: 's

definition awaitGetWorkflow ::
  "('e, 's) apiService \<Rightarrow> jsval \<Rightarrow> 's world \<Rightarrow> ('e thrown + object) \<times> 's world" where
  "awaitGetWorkflow api workflowId w =
     (case getWorkflow api workflowId (remote w) of
        (res, s) \<Rightarrow> (res, \<lparr>calls = calls w @ [GetWorkflow workflowId], remote = s\<rparr>))"

definition awaitUpdateWorkflow ::
  "('e, 's) apiService \<Rightarrow> jsval \<Rightarrow> object \<Rightarrow> 's world \<Rightarrow> ('e thrown + object) \<times> 's world" where
  "awaitUpdateWorkflow api workflowId workflowData w =
     (case updateWorkflow api workflowId workflowData (remote w) of
        (res, s) \<Rightarrow>
          (res, \<lparr>calls = calls w @ [UpdateWorkflow workflowId workflowData], remote = s\<rparr>))"

section \<open>UpdateWorkflowHandler.execute\<close>

text \<open>Lines 26 to 38: the three guards, in the order of the source.\<close>

definition validate :: "object \<Rightarrow> 'e thrown option" where
  "validate args =
     (let workflowId = getProp args ''workflowId'';
          nodes = getProp args ''nodes'';
          connections = getProp args ''connections''
      in if \<not> truthy workflowId then
           Some (N8nApiError ''Missing required parameter: workflowId'')
         else if truthy nodes \<and> \<not> isArray nodes then
           Some (N8nApiError ''Parameter \"nodes\" must be an array'')
         else if truthy connections \<and> typeof connections \<noteq> ''object'' then
           Some (N8nApiError ''Parameter \"connections\" must be an object'')
         else None)"

text \<open>Lines 44 to 59: the update payload, built from an empty object.\<close>

definition workflowData :: "object \<Rightarrow> object \<Rightarrow> object" where
  "workflowData args currentWorkflow =
     (let name = getProp args ''name'';
          nodes = getProp args ''nodes'';
          connections = getProp args ''connections'';
          settings = getProp args ''settings'';
          staticData = getProp args ''staticData'';
          d0 = Map.empty;
          d1 = (if \<not> strict_equals name JUndefined then d0(''name'' \<mapsto> name)
                else if \<not> strict_equals (getProp currentWorkflow ''name'') JUndefined
                then d0(''name'' \<mapsto> getProp currentWorkflow ''name'') else d0);
          d2 = (if \<not> strict_equals nodes JUndefined then d1(''nodes'' \<mapsto> nodes)
                else if \<not> strict_equals (getProp currentWorkflow ''nodes'') JUndefined
                then d1(''nodes'' \<mapsto> getProp currentWorkflow ''nodes'') else d1);
          d3 = (if \<not> strict_equals connections JUndefined
                then d2(''connections'' \<mapsto> connections)
                else if \<not> strict_equals (getProp currentWorkflow ''connections'') JUndefined
                then d2(''connections'' \<mapsto> getProp currentWorkflow ''connections'') else d2);
          d4 = (if \<not> strict_equals settings JUndefined then d3(''settings'' \<mapsto> settings)
                else if \<not> strict_equals (getProp currentWorkflow ''settings'') JUndefined
                then d3(''settings'' \<mapsto> getProp currentWorkflow ''settings'') else d3);
          d5 = (if \<not> strict_equals staticData JUndefined
                then d4(''staticData'' \<mapsto> staticData)
                else if \<not> strict_equals (getProp currentWorkflow ''staticData'') JUndefined
                then d4(''staticData'' \<mapsto> getProp currentWorkflow ''staticData'') else d4)
      in d5)"

text \<open>
  Line 70: the separator of the name entry, as the source file holds it: the three
  characters U+00E2, U+2020, U+2019 (the bytes of a rightwards arrow read in
  Windows-1252), here in UTF-8.
\<close>

definition arrow :: string where
  "arrow = [CHR 0xC3, CHR 0xA2, CHR 0xE2, CHR 0x80, CHR 0xA0, CHR 0xE2, CHR 0x80, CHR 0x99]"

text \<open>
  Line 70: the template literal of the name entry. Its two substitutions are converted
  from left to right; \<open>None\<close> is the \<^verbatim>\<open>TypeError\<close> of a conversion.
\<close>

definition nameChange :: "jsval \<Rightarrow> jsval \<Rightarrow> string option" where
  "nameChange old new =
     (case ToString old of
        None \<Rightarrow> None
      | Some a \<Rightarrow>
          (case ToString new of
             None \<Rightarrow> None
           | Some b \<Rightarrow> Some (''name: \"'' @ a @ ''\" '' @ arrow @ '' \"'' @ b @ ''\"'')))"

text \<open>Lines 68 to 74: the entries of the change summary.\<close>

definition changesArray :: "object \<Rightarrow> object \<Rightarrow> 'e thrown + string list" where
  "changesArray args currentWorkflow =
     (let name = getProp args ''name'';
          nodes = getProp args ''nodes'';
          connections = getProp args ''connections'';
          settings = getProp args ''settings'';
          staticData = getProp args ''staticData'';
          rest =
            (if \<not> strict_equals nodes JUndefined then [''nodes updated''] else []) @
            (if \<not> strict_equals connections JUndefined then [''connections updated''] else []) @
            (if \<not> strict_equals settings JUndefined then [''settings updated''] else []) @
            (if \<not> strict_equals staticData JUndefined then [''staticData updated''] else [])
      in if \<not> strict_equals name JUndefined \<and>
            \<not> strict_equals name (getProp currentWorkflow ''name'')
         then (case nameChange (getProp currentWorkflow ''name'') name of
                 None \<Rightarrow> Inl TypeError
               | Some entry \<Rightarrow> Inr (entry # rest))
         else Inr rest)"

text \<open>Lines 76 to 79.\<close>

definition changesSummary :: "string list \<Rightarrow> string" where
  "changesSummary changes =
     (if length changes > 0 then ''Changes: '' @ join '', '' changes
      else ''No changes were made'')"

text \<open>
  Lines 22 to 89: the function that \<^verbatim>\<open>execute\<close> hands to
  \<^verbatim>\<open>handleExecution\<close>. \<^verbatim>\<open>this.formatSuccess\<close> belongs to the base handler and is
  taken as a parameter. A \<^verbatim>\<open>throw\<close> and a rejected \<^verbatim>\<open>await\<close> end the function
  with \<open>Inl\<close>.
\<close>

definition execute_fn ::
  "('e, 's) apiService \<Rightarrow> (object \<Rightarrow> string \<Rightarrow> 'r) \<Rightarrow> object \<Rightarrow> 's world
     \<Rightarrow> ('e thrown + 'r) \<times> 's world" where
  "execute_fn api formatSuccess args w =
     (let workflowId = getProp args ''workflowId''
      in case validate args of
           Some err \<Rightarrow> (Inl err, w)
         | None \<Rightarrow>
             (case awaitGetWorkflow api workflowId w of
                (Inl err, w1) \<Rightarrow> (Inl err, w1)
              | (Inr currentWorkflow, w1) \<Rightarrow>
                  (case awaitUpdateWorkflow api workflowId
                          (workflowData args currentWorkflow) w1 of
                     (Inl err, w2) \<Rightarrow> (Inl err, w2)
                   | (Inr updatedWorkflow, w2) \<Rightarrow>
                       (case changesArray args currentWorkflow of
                          Inl err \<Rightarrow> (Inl err, w2)
                        | Inr changes \<Rightarrow>
                            (Inr (formatSuccess
                                    [''id'' \<mapsto> getProp updatedWorkflow ''id'',
                                     ''name'' \<mapsto> getProp updatedWorkflow ''name'',
                                     ''active'' \<mapsto> getProp updatedWorkflow ''active'']
                                    (''Workflow updated successfully. '' @
                                       changesSummary changes)),
                             w2)))))"

text \<open>
  Lines 21 and 22: \<^verbatim>\<open>execute\<close> passes that function and the arguments to
  \<^verbatim>\<open>this.handleExecution\<close>, which belongs to the base handler and is taken as a
  parameter. Everything below is stated on \<open>execute_fn\<close>, the operation that the
  source file defines.
\<close>

definition execute ::
  "((object \<Rightarrow> 's world \<Rightarrow> ('e thrown + 'r) \<times> 's world) \<Rightarrow> object \<Rightarrow> 'a)
     \<Rightarrow> ('e, 's) apiService \<Rightarrow> (object \<Rightarrow> string \<Rightarrow> 'r) \<Rightarrow> object \<Rightarrow> 'a" where
  "execute handleExecution api formatSuccess args =
     handleExecution (execute_fn api formatSuccess) args"

text \<open>
  The pair of statements that lines 45 to 59 repeat for each of the five fields, as
  one function of the field's name. It is used in the proofs only.
\<close>

definition assignField :: "string \<Rightarrow> object \<Rightarrow> object \<Rightarrow> object \<Rightarrow> object" where
  "assignField k args currentWorkflow d =
     (if \<not> strict_equals (getProp args k) JUndefined then d(k \<mapsto> getProp args k)
      else if \<not> strict_equals (getProp currentWorkflow k) JUndefined
      then d(k \<mapsto> getProp currentWorkflow k) else d)"

text \<open>
  The entries of lines 71 to 74, which do not depend on the fetched workflow. It is
  used in the proofs only.
\<close>

definition fieldEntries :: "object \<Rightarrow> string list" where
  "fieldEntries args =
     (if \<not> strict_equals (getProp args ''nodes'') JUndefined then [''nodes updated''] else []) @
     (if \<not> strict_equals (getProp args ''connections'') JUndefined
      then [''connections updated''] else []) @
     (if \<not> strict_equals (getProp args ''settings'') JUndefined
      then [''settings updated''] else []) @
     (if \<not> strict_equals (getProp args ''staticData'') JUndefined
      then [''staticData updated''] else [])"

section \<open>A remote system to run the handler against\<close>

text \<open>
  The examples run the handler against a remote system that stores one workflow:
  \<open>getWorkflow\<close> answers with it, \<open>updateWorkflow\<close> overwrites the fields of the
  payload and answers with the result. \<open>offlineApi\<close> rejects every call.
\<close>

definition storedWorkflow :: object where
  "storedWorkflow =
     [''id'' \<mapsto> JString ''42'', ''name'' \<mapsto> JString ''A'', ''active'' \<mapsto> JBool False,
      ''nodes'' \<mapsto> JArray 1 [], ''connections'' \<mapsto> JObject 2 []]"

definition memoryApi :: "(string, object) apiService" where
  "memoryApi =
     \<lparr>getWorkflow = (\<lambda>workflowId s. (Inr s, s)),
      updateWorkflow = (\<lambda>workflowId d s. (Inr (s ++ d), s ++ d))\<rparr>"

definition offlineApi :: "(string, object) apiService" where
  "offlineApi =
     \<lparr>getWorkflow = (\<lambda>workflowId s. (Inl (Rejected ''ECONNREFUSED''), s)),
      updateWorkflow = (\<lambda>workflowId d s. (Inl (Rejected ''ECONNREFUSED''), s))\<rparr>"

definition w0 :: "object world" where
  "w0 = \<lparr>calls = [], remote = storedWorkflow\<rparr>"

section \<open>Properties\<close>

subsection \<open>Auxiliary facts\<close>

lemma strict_equals_undefined [simp]: "strict_equals v JUndefined = (v = JUndefined)"
  by (cases v) simp_all

lemma falsy_values:
  "\<not> truthy v \<longleftrightarrow>
     v \<in> {JUndefined, JNull, JBool False, JNumber ''0'', JNumber ''NaN'', JString []}"
  by (cases v) auto

text \<open>
  The conversion of line 70 cannot throw for a value that is not an array or an
  object: a string, a number, a boolean, null and \<^verbatim>\<open>undefined\<close> all have a text.
\<close>

lemma ToString_primitive:
  "v \<in> range JString \<union> range JNumber \<union> range JBool \<union> {JNull, JUndefined}
   \<Longrightarrow> ToString v \<noteq> None"
  by auto

text \<open>
  The separator that line 70 holds is not the rightwards arrow U+2192, whose UTF-8
  bytes are E2 86 92.
\<close>

lemma arrow_is_not_U2192: "arrow \<noteq> [CHR 0xE2, CHR 0x86, CHR 0x92]"
  by (simp add: arrow_def)

lemma getProp_absent [simp]: "args k = None \<Longrightarrow> getProp args k = JUndefined"
  by (simp add: getProp_def)

lemma getProp_present [simp]: "args k = Some v \<Longrightarrow> getProp args k = v"
  by (simp add: getProp_def)

lemma execute_fn_invalid:
  "validate args = Some err \<Longrightarrow> execute_fn api f args w = (Inl err, w)"
  by (simp add: execute_fn_def)

lemma execute_fn_update_failed:
  fixes api :: "('e, 's) apiService"
  assumes "validate args = (None :: 'e thrown option)"
    and "getWorkflow api (getProp args ''workflowId'') (remote w) = (Inr cur, s)"
    and "updateWorkflow api (getProp args ''workflowId'') (workflowData args cur) s = (Inl err, t)"
  shows "execute_fn api f args w =
     (Inl err,
      \<lparr>calls = calls w @ [GetWorkflow (getProp args ''workflowId''),
         UpdateWorkflow (getProp args ''workflowId'') (workflowData args cur)],
       remote = t\<rparr>)"
  using assms
  by (simp add: execute_fn_def awaitGetWorkflow_def awaitUpdateWorkflow_def Let_def)

lemma execute_fn_updated:
  fixes api :: "('e, 's) apiService"
  assumes "validate args = (None :: 'e thrown option)"
    and "getWorkflow api (getProp args ''workflowId'') (remote w) = (Inr cur, s)"
    and "updateWorkflow api (getProp args ''workflowId'') (workflowData args cur) s = (Inr upd, t)"
  shows "execute_fn api f args w =
     (case changesArray args cur of
        Inl err \<Rightarrow> Inl err
      | Inr changes \<Rightarrow>
          Inr (f [''id'' \<mapsto> getProp upd ''id'', ''name'' \<mapsto> getProp upd ''name'',
                  ''active'' \<mapsto> getProp upd ''active'']
                 (''Workflow updated successfully. '' @ changesSummary changes)),
      \<lparr>calls = calls w @ [GetWorkflow (getProp args ''workflowId''),
         UpdateWorkflow (getProp args ''workflowId'') (workflowData args cur)],
       remote = t\<rparr>)"
  using assms
  by (simp add: execute_fn_def awaitGetWorkflow_def awaitUpdateWorkflow_def Let_def
      split: sum.splits)

lemma execute_fn_fetched_calls:
  fixes api :: "('e, 's) apiService"
  assumes "validate args = (None :: 'e thrown option)"
    and "getWorkflow api (getProp args ''workflowId'') (remote w) = (Inr cur, s)"
  shows "calls (snd (execute_fn api f args w)) =
     calls w @ [GetWorkflow (getProp args ''workflowId''),
                UpdateWorkflow (getProp args ''workflowId'') (workflowData args cur)]"
proof -
  obtain res t where u: "updateWorkflow api (getProp args ''workflowId'')
      (workflowData args cur) s = (res, t)"
    by (cases "updateWorkflow api (getProp args ''workflowId'') (workflowData args cur) s")
  show ?thesis
  proof (cases res)
    case (Inl err)
    with u show ?thesis by (simp add: execute_fn_update_failed [OF assms])
  next
    case (Inr upd)
    with u show ?thesis by (simp add: execute_fn_updated [OF assms])
  qed
qed

lemma execute_fn_InrD:
  fixes api :: "('e, 's) apiService"
  assumes run: "execute_fn api f args w = (Inr r, w')"
    and fetched: "getWorkflow api (getProp args ''workflowId'') (remote w) = (Inr cur, s)"
  shows "\<exists>upd t changes.
     validate args = (None :: 'e thrown option)
     \<and> updateWorkflow api (getProp args ''workflowId'') (workflowData args cur) s = (Inr upd, t)
     \<and> changesArray args cur = (Inr changes :: 'e thrown + string list)
     \<and> r = f [''id'' \<mapsto> getProp upd ''id'', ''name'' \<mapsto> getProp upd ''name'',
               ''active'' \<mapsto> getProp upd ''active'']
              (''Workflow updated successfully. '' @ changesSummary changes)"
proof -
  have v: "validate args = (None :: 'e thrown option)"
  proof (cases "validate args :: 'e thrown option")
    case None
    then show ?thesis .
  next
    case (Some err)
    from execute_fn_invalid [OF this, of api f w] run show ?thesis by simp
  qed
  obtain res t where u: "updateWorkflow api (getProp args ''workflowId'')
      (workflowData args cur) s = (res, t)"
    by (cases "updateWorkflow api (getProp args ''workflowId'') (workflowData args cur) s")
  show ?thesis
  proof (cases res)
    case (Inl err)
    with execute_fn_update_failed [OF v fetched, of err t f] u run show ?thesis by simp
  next
    case (Inr upd)
    with u have u': "updateWorkflow api (getProp args ''workflowId'')
        (workflowData args cur) s = (Inr upd, t)" by simp
    show ?thesis
    proof (cases "changesArray args cur :: 'e thrown + string list")
      case (Inl err)
      with execute_fn_updated [OF v fetched u', of f] run show ?thesis by simp
    next
      case (Inr changes)
      with execute_fn_updated [OF v fetched u', of f] run
      have "r = f [''id'' \<mapsto> getProp upd ''id'', ''name'' \<mapsto> getProp upd ''name'',
               ''active'' \<mapsto> getProp upd ''active'']
              (''Workflow updated successfully. '' @ changesSummary changes)" by simp
      with v u' Inr show ?thesis by blast
    qed
  qed
qed

lemma validate_null_field:
  assumes "k \<in> {''nodes'', ''connections'', ''settings'', ''staticData''}"
    and "args k = Some JNull"
  shows "validate args = validate (args(k := None))"
proof -
  from assms(1) consider "k = ''nodes''" | "k = ''connections''" | "k = ''settings''"
    | "k = ''staticData''" by auto
  then show ?thesis
  proof cases
    case 1
    with assms(2) show ?thesis by (simp add: validate_def getProp_def Let_def)
  next
    case 2
    with assms(2) show ?thesis by (simp add: validate_def getProp_def Let_def)
  next
    case 3
    then show ?thesis by (simp add: validate_def getProp_def Let_def)
  next
    case 4
    then show ?thesis by (simp add: validate_def getProp_def Let_def)
  qed
qed

text \<open>
  What the guards of lines 31 and 36 let through is validated as if the field were
  absent: a falsy value of \<^verbatim>\<open>nodes\<close>, and a value of \<^verbatim>\<open>connections\<close> that is falsy or
  whose \<^verbatim>\<open>typeof\<close> is \<^verbatim>\<open>"object"\<close>.
\<close>

lemma validate_falsy_nodes:
  assumes "\<not> truthy (getProp args ''nodes'')"
  shows "validate args = validate (args(''nodes'' := None))"
  using assms by (simp add: validate_def getProp_def Let_def)

lemma validate_unchecked_connections:
  assumes "\<not> truthy (getProp args ''connections'')
    \<or> typeof (getProp args ''connections'') = ''object''"
  shows "validate args = validate (args(''connections'' := None))"
  using assms by (auto simp add: validate_def getProp_def Let_def)

lemma workflowData_assign:
  "workflowData args cur =
     assignField ''staticData'' args cur
       (assignField ''settings'' args cur
         (assignField ''connections'' args cur
           (assignField ''nodes'' args cur
             (assignField ''name'' args cur Map.empty))))"
  unfolding workflowData_def Let_def assignField_def by (rule refl)

lemma assignField_apply:
  "assignField k' args cur d k =
     (if k = k' then
        (if getProp args k \<noteq> JUndefined then Some (getProp args k)
         else if getProp cur k \<noteq> JUndefined then Some (getProp cur k) else d k)
      else d k)"
  by (simp add: assignField_def)

lemma workflowData_apply:
  "workflowData args cur k =
     (if k \<in> {''name'', ''nodes'', ''connections'', ''settings'', ''staticData''}
      then (if getProp args k \<noteq> JUndefined then Some (getProp args k)
            else if getProp cur k \<noteq> JUndefined then Some (getProp cur k) else None)
      else None)"
  unfolding workflowData_assign by (simp only: assignField_apply) simp

lemma fieldEntries_set:
  "set (fieldEntries args) \<subseteq>
     {''nodes updated'', ''connections updated'', ''settings updated'', ''staticData updated''}"
  by (auto simp add: fieldEntries_def)

lemma fieldEntries_mem:
  "''nodes updated'' \<in> set (fieldEntries args) \<longleftrightarrow> getProp args ''nodes'' \<noteq> JUndefined"
  "''connections updated'' \<in> set (fieldEntries args) \<longleftrightarrow>
     getProp args ''connections'' \<noteq> JUndefined"
  "''settings updated'' \<in> set (fieldEntries args) \<longleftrightarrow> getProp args ''settings'' \<noteq> JUndefined"
  "''staticData updated'' \<in> set (fieldEntries args) \<longleftrightarrow>
     getProp args ''staticData'' \<noteq> JUndefined"
  by (simp_all add: fieldEntries_def)

lemma changesArray_eq:
  "changesArray args cur =
     (if \<not> strict_equals (getProp args ''name'') JUndefined \<and>
         \<not> strict_equals (getProp args ''name'') (getProp cur ''name'')
      then (case nameChange (getProp cur ''name'') (getProp args ''name'') of
              None \<Rightarrow> Inl TypeError
            | Some entry \<Rightarrow> Inr (entry # fieldEntries args))
      else Inr (fieldEntries args))"
  unfolding changesArray_def fieldEntries_def Let_def by (rule refl)

lemma changesArray_fieldEntries:
  "changesArray args cur = Inr changes \<Longrightarrow> set (fieldEntries args) \<subseteq> set changes"
  by (auto simp add: changesArray_eq split: if_splits option.splits)

lemma nameChange_SomeD:
  assumes "nameChange old new = Some entry"
  shows "\<exists>a b. ToString old = Some a \<and> ToString new = Some b
     \<and> entry = ''name: \"'' @ a @ ''\" '' @ arrow @ '' \"'' @ b @ ''\"''"
  using assms by (auto simp add: nameChange_def split: option.splits)

lemma nameChange_not_field:
  assumes "nameChange old new = Some entry"
  shows "entry \<notin>
     {''nodes updated'', ''connections updated'', ''settings updated'', ''staticData updated''}"
  using assms by (auto simp add: nameChange_def split: option.splits)

subsection \<open>Validation\<close>

text \<open>
  C3. When the request has no \<^verbatim>\<open>workflowId\<close>, the operation fails with the
  validation error "Missing required parameter: workflowId" and leaves the world as it
  was: the log of remote calls gains neither a \<^verbatim>\<open>getWorkflow\<close> nor an
  \<^verbatim>\<open>updateWorkflow\<close>.
\<close>

theorem missing_workflowId_fails:
  fixes api :: "('e, 's) apiService"
  assumes "args ''workflowId'' = None"
  shows "execute_fn api f args w =
           (Inl (N8nApiError ''Missing required parameter: workflowId''), w)
         \<and> calls (snd (execute_fn api f args w)) = calls w"
proof -
  from assms have "validate args =
      Some (N8nApiError ''Missing required parameter: workflowId'' :: 'e thrown)"
    by (simp add: validate_def)
  then show ?thesis by (simp add: execute_fn_invalid)
qed

text \<open>
  A request with a name and no identifier, against the stored workflow.
\<close>

theorem missing_workflowId_fails_witness:
  "[''name'' \<mapsto> JString ''B''] ''workflowId'' = None
   \<and> execute_fn memoryApi Pair [''name'' \<mapsto> JString ''B''] w0 =
       (Inl (N8nApiError ''Missing required parameter: workflowId''), w0)
   \<and> calls (snd (execute_fn memoryApi Pair [''name'' \<mapsto> JString ''B''] w0)) = calls w0"
  using missing_workflowId_fails [of "[''name'' \<mapsto> JString ''B'']" memoryApi Pair w0]
  by simp

text \<open>
  C8. When \<^verbatim>\<open>workflowId\<close> is present but falsy (the empty string, null,
  \<^verbatim>\<open>false\<close>, zero or NaN), the operation fails with the same missing-identifier
  error, and the world is as it was: no remote call is made.
\<close>

theorem falsy_workflowId_fails:
  fixes api :: "('e, 's) apiService"
  assumes "args ''workflowId'' = Some v"
    and "v \<in> {JString [], JNull, JBool False, JNumber ''0'', JNumber ''NaN'', JUndefined}"
  shows "execute_fn api f args w =
           (Inl (N8nApiError ''Missing required parameter: workflowId''), w)
         \<and> calls (snd (execute_fn api f args w)) = calls w"
proof -
  from assms(2) have "\<not> truthy v" by (auto simp add: falsy_values)
  with assms(1)
  have "validate args =
      Some (N8nApiError ''Missing required parameter: workflowId'' :: 'e thrown)"
    by (simp add: validate_def)
  then show ?thesis by (simp add: execute_fn_invalid)
qed

text \<open>
  A request whose identifier is the empty string.
\<close>

theorem falsy_workflowId_fails_witness:
  "[''workflowId'' \<mapsto> JString [], ''name'' \<mapsto> JString ''B''] ''workflowId'' = Some (JString [])
   \<and> JString [] \<in> {JString [], JNull, JBool False, JNumber ''0'', JNumber ''NaN'', JUndefined}
   \<and> execute_fn memoryApi Pair [''workflowId'' \<mapsto> JString [], ''name'' \<mapsto> JString ''B''] w0 =
       (Inl (N8nApiError ''Missing required parameter: workflowId''), w0)
   \<and> calls (snd (execute_fn memoryApi Pair
        [''workflowId'' \<mapsto> JString [], ''name'' \<mapsto> JString ''B''] w0)) = calls w0"
  using falsy_workflowId_fails
    [of "[''workflowId'' \<mapsto> JString [], ''name'' \<mapsto> JString ''B'']" "JString []"
      memoryApi Pair w0]
  by simp

text \<open>
  C4, as the code has it. The guard of line 31 is \<^verbatim>\<open>nodes && !Array.isArray(nodes)\<close>:
  it fires for a truthy value that is not an array. Then the operation fails with a
  validation error and leaves the world as it was; the error is the one of
  \<^verbatim>\<open>nodes\<close> unless the identifier is falsy, which the first guard reports.
\<close>

theorem truthy_non_array_nodes_fails:
  fixes api :: "('e, 's) apiService"
  assumes "truthy (getProp args ''nodes'')" and "\<not> isArray (getProp args ''nodes'')"
  shows "execute_fn api f args w =
     (Inl (N8nApiError
        (if truthy (getProp args ''workflowId'') then ''Parameter \"nodes\" must be an array''
         else ''Missing required parameter: workflowId'')), w)"
proof -
  from assms have "validate args =
      Some (N8nApiError
        (if truthy (getProp args ''workflowId'') then ''Parameter \"nodes\" must be an array''
         else ''Missing required parameter: workflowId'') :: 'e thrown)"
    by (simp add: validate_def)
  then show ?thesis by (rule execute_fn_invalid)
qed

text \<open>
  A request whose nodes are a string that is not empty.
\<close>

theorem truthy_non_array_nodes_fails_witness:
  "truthy (getProp [''workflowId'' \<mapsto> JString ''42'', ''nodes'' \<mapsto> JString ''n1''] ''nodes'')
   \<and> \<not> isArray (getProp [''workflowId'' \<mapsto> JString ''42'', ''nodes'' \<mapsto> JString ''n1''] ''nodes'')
   \<and> execute_fn memoryApi Pair [''workflowId'' \<mapsto> JString ''42'', ''nodes'' \<mapsto> JString ''n1''] w0 =
       (Inl (N8nApiError ''Parameter \"nodes\" must be an array''), w0)"
  using truthy_non_array_nodes_fails
    [where args = "[''workflowId'' \<mapsto> JString ''42'', ''nodes'' \<mapsto> JString ''n1'']"
       and api = memoryApi and f = Pair and w = w0]
  by (simp add: getProp_def)

text \<open>
  C4, as the claim states it, fails: a request whose \<^verbatim>\<open>nodes\<close> is \<^verbatim>\<open>false\<close>
  (present, and not an array) passes validation. Both remote calls are made, the payload
  carries \<^verbatim>\<open>false\<close> as the nodes, and the operation succeeds.
\<close>

theorem falsy_nodes_counterexample:
  "getProp [''workflowId'' \<mapsto> JString ''42'', ''nodes'' \<mapsto> JBool False] ''nodes'' = JBool False
   \<and> \<not> isArray (JBool False)
   \<and> calls (snd (execute_fn memoryApi Pair
        [''workflowId'' \<mapsto> JString ''42'', ''nodes'' \<mapsto> JBool False] w0)) =
       [GetWorkflow (JString ''42''),
        UpdateWorkflow (JString ''42'')
          (workflowData [''workflowId'' \<mapsto> JString ''42'', ''nodes'' \<mapsto> JBool False]
             storedWorkflow)]
   \<and> workflowData [''workflowId'' \<mapsto> JString ''42'', ''nodes'' \<mapsto> JBool False]
        storedWorkflow ''nodes'' = Some (JBool False)
   \<and> fst (execute_fn memoryApi Pair
        [''workflowId'' \<mapsto> JString ''42'', ''nodes'' \<mapsto> JBool False] w0) =
       Inr ([''id'' \<mapsto> JString ''42'', ''name'' \<mapsto> JString ''A'', ''active'' \<mapsto> JBool False],
            ''Workflow updated successfully. Changes: nodes updated'')"
proof -
  let ?args = "[''workflowId'' \<mapsto> JString ''42'', ''nodes'' \<mapsto> JBool False]"
  have v: "validate ?args = (None :: string thrown option)"
    by (simp add: validate_def getProp_def)
  have g: "getWorkflow memoryApi (getProp ?args ''workflowId'') (remote w0) =
      (Inr storedWorkflow, storedWorkflow)"
    by (simp add: memoryApi_def w0_def)
  have u: "updateWorkflow memoryApi (getProp ?args ''workflowId'')
      (workflowData ?args storedWorkflow) storedWorkflow =
      (Inr (storedWorkflow ++ workflowData ?args storedWorkflow),
       storedWorkflow ++ workflowData ?args storedWorkflow)"
    by (simp add: memoryApi_def)
  have c: "changesArray ?args storedWorkflow = (Inr [''nodes updated''] :: string thrown + string list)"
    by (simp add: changesArray_def getProp_def)
  show ?thesis
    unfolding execute_fn_updated [OF v g u, of Pair] c
    by (simp add: getProp_def map_add_def workflowData_apply storedWorkflow_def
        changesSummary_def w0_def)
qed

text \<open>
  C5, as the code has it. The guard of line 36 is
  \<^verbatim>\<open>connections && typeof connections !== "object"\<close>: it fires for a truthy value
  whose \<^verbatim>\<open>typeof\<close> is not \<^verbatim>\<open>"object"\<close>, that is for \<^verbatim>\<open>true\<close>, a number other
  than zero and NaN, and a string that is not empty. Then the operation fails with a
  validation error and leaves the world as it was; the error is the one of
  \<^verbatim>\<open>connections\<close> unless one of the two guards before it fires.
\<close>

theorem truthy_non_object_connections_fails:
  fixes api :: "('e, 's) apiService"
  assumes "truthy (getProp args ''connections'')"
    and "typeof (getProp args ''connections'') \<noteq> ''object''"
  shows "execute_fn api f args w =
     (Inl (N8nApiError
        (if \<not> truthy (getProp args ''workflowId'')
         then ''Missing required parameter: workflowId''
         else if truthy (getProp args ''nodes'') \<and> \<not> isArray (getProp args ''nodes'')
         then ''Parameter \"nodes\" must be an array''
         else ''Parameter \"connections\" must be an object'')), w)
     \<and> (getProp args ''connections'' = JBool True
        \<or> (\<exists>n. getProp args ''connections'' = JNumber n \<and> n \<noteq> ''0'' \<and> n \<noteq> ''NaN'')
        \<or> (\<exists>s. getProp args ''connections'' = JString s \<and> s \<noteq> []))"
proof -
  from assms have "validate args =
      Some (N8nApiError
        (if \<not> truthy (getProp args ''workflowId'')
         then ''Missing required parameter: workflowId''
         else if truthy (getProp args ''nodes'') \<and> \<not> isArray (getProp args ''nodes'')
         then ''Parameter \"nodes\" must be an array''
         else ''Parameter \"connections\" must be an object'') :: 'e thrown)"
    by (simp add: validate_def Let_def)
  then have "execute_fn api f args w =
     (Inl (N8nApiError
        (if \<not> truthy (getProp args ''workflowId'')
         then ''Missing required parameter: workflowId''
         else if truthy (getProp args ''nodes'') \<and> \<not> isArray (getProp args ''nodes'')
         then ''Parameter \"nodes\" must be an array''
         else ''Parameter \"connections\" must be an object'')), w)"
    by (rule execute_fn_invalid)
  moreover from assms have "getProp args ''connections'' = JBool True
        \<or> (\<exists>n. getProp args ''connections'' = JNumber n \<and> n \<noteq> ''0'' \<and> n \<noteq> ''NaN'')
        \<or> (\<exists>s. getProp args ''connections'' = JString s \<and> s \<noteq> [])"
    by (cases "getProp args ''connections''") simp_all
  ultimately show ?thesis by (rule conjI)
qed

text \<open>
  A request whose connections are a string that is not empty.
\<close>

theorem truthy_non_object_connections_fails_witness:
  "truthy (getProp [''workflowId'' \<mapsto> JString ''42'', ''connections'' \<mapsto> JString ''a-b'']
      ''connections'')
   \<and> typeof (getProp [''workflowId'' \<mapsto> JString ''42'', ''connections'' \<mapsto> JString ''a-b'']
      ''connections'') \<noteq> ''object''
   \<and> execute_fn memoryApi Pair
        [''workflowId'' \<mapsto> JString ''42'', ''connections'' \<mapsto> JString ''a-b''] w0 =
       (Inl (N8nApiError ''Parameter \"connections\" must be an object''), w0)"
  using truthy_non_object_connections_fails
    [where args = "[''workflowId'' \<mapsto> JString ''42'', ''connections'' \<mapsto> JString ''a-b'']"
       and api = memoryApi and f = Pair and w = w0]
  by (simp add: getProp_def)

text \<open>
  C5, as the claim states it, fails: a request whose \<^verbatim>\<open>connections\<close> is an array
  (present, and not a key-value mapping) passes validation, since \<^verbatim>\<open>typeof\<close> answers
  \<^verbatim>\<open>"object"\<close> for an array. Both remote calls are made, the payload carries the array
  as the connections, and the operation succeeds.
\<close>

theorem array_connections_counterexample:
  "getProp [''workflowId'' \<mapsto> JString ''42'', ''connections'' \<mapsto> JArray 3 [JString ''a'']]
     ''connections'' = JArray 3 [JString ''a'']
   \<and> isArray (JArray 3 [JString ''a''])
   \<and> calls (snd (execute_fn memoryApi Pair
        [''workflowId'' \<mapsto> JString ''42'', ''connections'' \<mapsto> JArray 3 [JString ''a'']] w0)) =
       [GetWorkflow (JString ''42''),
        UpdateWorkflow (JString ''42'')
          (workflowData
             [''workflowId'' \<mapsto> JString ''42'', ''connections'' \<mapsto> JArray 3 [JString ''a'']]
             storedWorkflow)]
   \<and> workflowData
        [''workflowId'' \<mapsto> JString ''42'', ''connections'' \<mapsto> JArray 3 [JString ''a'']]
        storedWorkflow ''connections'' = Some (JArray 3 [JString ''a''])
   \<and> fst (execute_fn memoryApi Pair
        [''workflowId'' \<mapsto> JString ''42'', ''connections'' \<mapsto> JArray 3 [JString ''a'']] w0) =
       Inr ([''id'' \<mapsto> JString ''42'', ''name'' \<mapsto> JString ''A'', ''active'' \<mapsto> JBool False],
            ''Workflow updated successfully. Changes: connections updated'')"
proof -
  let ?args = "[''workflowId'' \<mapsto> JString ''42'', ''connections'' \<mapsto> JArray 3 [JString ''a'']]"
  have v: "validate ?args = (None :: string thrown option)"
    by (simp add: validate_def getProp_def)
  have g: "getWorkflow memoryApi (getProp ?args ''workflowId'') (remote w0) =
      (Inr storedWorkflow, storedWorkflow)"
    by (simp add: memoryApi_def w0_def)
  have u: "updateWorkflow memoryApi (getProp ?args ''workflowId'')
      (workflowData ?args storedWorkflow) storedWorkflow =
      (Inr (storedWorkflow ++ workflowData ?args storedWorkflow),
       storedWorkflow ++ workflowData ?args storedWorkflow)"
    by (simp add: memoryApi_def)
  have c: "changesArray ?args storedWorkflow =
      (Inr [''connections updated''] :: string thrown + string list)"
    by (simp add: changesArray_def getProp_def)
  show ?thesis
    unfolding execute_fn_updated [OF v g u, of Pair] c
    by (simp add: getProp_def map_add_def workflowData_apply storedWorkflow_def
        changesSummary_def w0_def)
qed

subsection \<open>A failed fetch\<close>

text \<open>
  C6. When validation passes and the fetch fails, the operation ends with the very
  failure that \<^verbatim>\<open>getWorkflow\<close> gave, and the fetch is the only call that the log
  gains: no \<^verbatim>\<open>updateWorkflow\<close> follows and the fetch is not repeated.
\<close>

theorem fetch_failure_propagates:
  fixes api :: "('e, 's) apiService"
  assumes "validate args = (None :: 'e thrown option)"
    and "getWorkflow api (getProp args ''workflowId'') (remote w) = (Inl err, s)"
  shows "execute_fn api f args w =
     (Inl err, \<lparr>calls = calls w @ [GetWorkflow (getProp args ''workflowId'')], remote = s\<rparr>)"
  using assms by (simp add: execute_fn_def awaitGetWorkflow_def Let_def)

text \<open>
  A valid request against the remote system that rejects every call.
\<close>

theorem fetch_failure_propagates_witness:
  "validate [''workflowId'' \<mapsto> JString ''42'', ''name'' \<mapsto> JString ''B''] =
     (None :: string thrown option)
   \<and> getWorkflow offlineApi
       (getProp [''workflowId'' \<mapsto> JString ''42'', ''name'' \<mapsto> JString ''B''] ''workflowId'')
       (remote w0) = (Inl (Rejected ''ECONNREFUSED''), storedWorkflow)
   \<and> execute_fn offlineApi Pair [''workflowId'' \<mapsto> JString ''42'', ''name'' \<mapsto> JString ''B''] w0 =
       (Inl (Rejected ''ECONNREFUSED''),
        \<lparr>calls = [GetWorkflow (JString ''42'')], remote = storedWorkflow\<rparr>)"
  using fetch_failure_propagates
    [where args = "[''workflowId'' \<mapsto> JString ''42'', ''name'' \<mapsto> JString ''B'']"
       and api = offlineApi and w = w0 and err = "Rejected ''ECONNREFUSED''"
       and s = storedWorkflow and f = Pair]
  by (simp add: validate_def offlineApi_def w0_def getProp_def)

subsection \<open>The update payload\<close>

text \<open>
  C1. When validation passes and the fetch answers with the current workflow, the
  log gains the fetch and then one \<^verbatim>\<open>updateWorkflow\<close>, whose payload holds, for each
  of \<^verbatim>\<open>name\<close>, \<^verbatim>\<open>nodes\<close>, \<^verbatim>\<open>connections\<close>, \<^verbatim>\<open>settings\<close> and
  \<^verbatim>\<open>staticData\<close>: the value of the request when the request has one (a value other
  than \<^verbatim>\<open>undefined\<close>), else the value of the fetched workflow when it has one, else
  nothing; and the payload holds no other property. When the request has none of the
  five, the payload is the fetched workflow cut down to those of the five fields that
  it has.
\<close>

theorem update_payload_merges:
  fixes api :: "('e, 's) apiService"
  assumes "validate args = (None :: 'e thrown option)"
    and "getWorkflow api (getProp args ''workflowId'') (remote w) = (Inr cur, s)"
  shows "\<exists>payload.
     calls (snd (execute_fn api f args w)) =
       calls w @ [GetWorkflow (getProp args ''workflowId''),
                  UpdateWorkflow (getProp args ''workflowId'') payload]
     \<and> (\<forall>k \<in> {''name'', ''nodes'', ''connections'', ''settings'', ''staticData''}.
          payload k =
            (if getProp args k \<noteq> JUndefined then Some (getProp args k)
             else if getProp cur k \<noteq> JUndefined then Some (getProp cur k)
             else None))
     \<and> dom payload \<subseteq> {''name'', ''nodes'', ''connections'', ''settings'', ''staticData''}
     \<and> ((\<forall>k \<in> {''name'', ''nodes'', ''connections'', ''settings'', ''staticData''}.
            getProp args k = JUndefined) \<longrightarrow>
          payload =
            (\<lambda>k. if k \<in> {''name'', ''nodes'', ''connections'', ''settings'', ''staticData''}
                    \<and> getProp cur k \<noteq> JUndefined
                 then Some (getProp cur k) else None))"
proof -
  let ?id = "getProp args ''workflowId''"
  let ?payload = "workflowData args cur"
  have log: "calls (snd (execute_fn api f args w)) =
      calls w @ [GetWorkflow ?id, UpdateWorkflow ?id ?payload]"
    using assms by (rule execute_fn_fetched_calls)
  have fields: "\<forall>k \<in> {''name'', ''nodes'', ''connections'', ''settings'', ''staticData''}.
      ?payload k =
        (if getProp args k \<noteq> JUndefined then Some (getProp args k)
         else if getProp cur k \<noteq> JUndefined then Some (getProp cur k)
         else None)"
    by (simp only: workflowData_apply) simp
  have only: "dom ?payload \<subseteq> {''name'', ''nodes'', ''connections'', ''settings'', ''staticData''}"
  proof
    fix k assume "k \<in> dom ?payload"
    then have "?payload k \<noteq> None" by (simp add: dom_def)
    then show "k \<in> {''name'', ''nodes'', ''connections'', ''settings'', ''staticData''}"
      by (simp only: workflowData_apply split: if_splits) simp
  qed
  have none: "(\<forall>k \<in> {''name'', ''nodes'', ''connections'', ''settings'', ''staticData''}.
        getProp args k = JUndefined) \<longrightarrow>
      ?payload =
        (\<lambda>k. if k \<in> {''name'', ''nodes'', ''connections'', ''settings'', ''staticData''}
                \<and> getProp cur k \<noteq> JUndefined
             then Some (getProp cur k) else None)"
  proof (intro impI ext)
    fix k
    assume a: "\<forall>k \<in> {''name'', ''nodes'', ''connections'', ''settings'', ''staticData''}.
        getProp args k = JUndefined"
    show "?payload k =
        (if k \<in> {''name'', ''nodes'', ''connections'', ''settings'', ''staticData''}
            \<and> getProp cur k \<noteq> JUndefined
         then Some (getProp cur k) else None)"
    proof (cases "k \<in> {''name'', ''nodes'', ''connections'', ''settings'', ''staticData''}")
      case True
      from a True have "getProp args k = JUndefined" by (rule bspec)
      with True show ?thesis by (simp only: workflowData_apply) simp
    next
      case False
      then show ?thesis by (simp only: workflowData_apply) simp
    qed
  qed
  show ?thesis
    by (rule exI [of _ "workflowData args cur"])
      (rule conjI [OF log conjI [OF fields conjI [OF only none]]])
qed

text \<open>
  A request that renames the stored workflow: the payload takes the name from the
  request, the nodes and the connections from the stored workflow, and has no settings,
  no static data and no identifier.
\<close>

theorem update_payload_merges_witness:
  "validate [''workflowId'' \<mapsto> JString ''42'', ''name'' \<mapsto> JString ''B''] =
     (None :: string thrown option)
   \<and> getWorkflow memoryApi
       (getProp [''workflowId'' \<mapsto> JString ''42'', ''name'' \<mapsto> JString ''B''] ''workflowId'')
       (remote w0) = (Inr storedWorkflow, storedWorkflow)
   \<and> (\<exists>payload.
        calls (snd (execute_fn memoryApi Pair
          [''workflowId'' \<mapsto> JString ''42'', ''name'' \<mapsto> JString ''B''] w0)) =
          [GetWorkflow (JString ''42''), UpdateWorkflow (JString ''42'') payload]
        \<and> payload ''name'' = Some (JString ''B'')
        \<and> payload ''nodes'' = Some (JArray 1 [])
        \<and> payload ''connections'' = Some (JObject 2 [])
        \<and> payload ''settings'' = None
        \<and> payload ''staticData'' = None
        \<and> payload ''id'' = None)"
proof -
  let ?args = "[''workflowId'' \<mapsto> JString ''42'', ''name'' \<mapsto> JString ''B'']"
  have v: "validate ?args = (None :: string thrown option)"
    by (simp add: validate_def getProp_def)
  have g: "getWorkflow memoryApi (getProp ?args ''workflowId'') (remote w0) =
      (Inr storedWorkflow, storedWorkflow)"
    by (simp add: memoryApi_def w0_def)
  from update_payload_merges [OF v g, of Pair] obtain payload where
    l: "calls (snd (execute_fn memoryApi Pair ?args w0)) =
        calls w0 @ [GetWorkflow (getProp ?args ''workflowId''),
                    UpdateWorkflow (getProp ?args ''workflowId'') payload]"
    and fl: "\<forall>k \<in> {''name'', ''nodes'', ''connections'', ''settings'', ''staticData''}.
        payload k =
          (if getProp ?args k \<noteq> JUndefined then Some (getProp ?args k)
           else if getProp storedWorkflow k \<noteq> JUndefined then Some (getProp storedWorkflow k)
           else None)"
    and d: "dom payload \<subseteq> {''name'', ''nodes'', ''connections'', ''settings'', ''staticData''}"
    by (elim exE conjE)
  from l have l': "calls (snd (execute_fn memoryApi Pair ?args w0)) =
      [GetWorkflow (JString ''42''), UpdateWorkflow (JString ''42'') payload]"
    by (simp add: w0_def getProp_def)
  from fl have f1: "payload ''name'' = Some (JString ''B'')"
    and f2: "payload ''nodes'' = Some (JArray 1 [])"
    and f3: "payload ''connections'' = Some (JObject 2 [])"
    and f4: "payload ''settings'' = None"
    and f5: "payload ''staticData'' = None"
    by (simp_all add: getProp_def storedWorkflow_def)
  from d have f6: "payload ''id'' = None"
    by (auto simp add: dom_def subset_iff)
  from v g l' f1 f2 f3 f4 f5 f6 show ?thesis by (intro conjI exI [of _ payload])
qed

text \<open>
  C9. When the request supplies null for \<open>k\<close>, one of \<^verbatim>\<open>nodes\<close>,
  \<^verbatim>\<open>connections\<close>, \<^verbatim>\<open>settings\<close> and \<^verbatim>\<open>staticData\<close>:
  \<^item> the guards decide as they would if the field were absent, so the null is not
    checked for its shape;
  \<^item> when validation passes and the workflow is fetched, the payload of the
    \<^verbatim>\<open>updateWorkflow\<close> call carries null for \<open>k\<close>, whatever the fetched workflow
    holds there;
  \<^item> when the operation returns its result, the entry "\<open>k\<close> updated" is among the
    changes that the summary lists.
\<close>

theorem null_field_counts_as_present:
  fixes api :: "('e, 's) apiService"
  assumes k: "k \<in> {''nodes'', ''connections'', ''settings'', ''staticData''}"
    and null: "args k = Some JNull"
  shows "(validate args :: 'e thrown option) = validate (args(k := None))
     \<and> (validate args = (None :: 'e thrown option) \<longrightarrow>
        getWorkflow api (getProp args ''workflowId'') (remote w) = (Inr cur, s) \<longrightarrow>
          (\<exists>payload.
             calls (snd (execute_fn api f args w)) =
               calls w @ [GetWorkflow (getProp args ''workflowId''),
                          UpdateWorkflow (getProp args ''workflowId'') payload]
             \<and> payload k = Some JNull)
          \<and> (\<forall>r w'. execute_fn api f args w = (Inr r, w') \<longrightarrow>
                (\<exists>changes upd.
                   r = f [''id'' \<mapsto> getProp upd ''id'', ''name'' \<mapsto> getProp upd ''name'',
                          ''active'' \<mapsto> getProp upd ''active'']
                         (''Workflow updated successfully. '' @ changesSummary changes)
                   \<and> (k @ '' updated'') \<in> set changes
                   \<and> changesSummary changes = ''Changes: '' @ join '', '' changes)))"
proof (intro conjI impI allI)
  show "(validate args :: 'e thrown option) = validate (args(k := None))"
    using k null by (rule validate_null_field)
next
  assume v: "validate args = (None :: 'e thrown option)"
    and g: "getWorkflow api (getProp args ''workflowId'') (remote w) = (Inr cur, s)"
  from null have "getProp args k = JNull" by simp
  with k have "workflowData args cur k = Some JNull"
    by (simp only: workflowData_apply) auto
  with execute_fn_fetched_calls [OF v g, of f]
  show "\<exists>payload.
      calls (snd (execute_fn api f args w)) =
        calls w @ [GetWorkflow (getProp args ''workflowId''),
                   UpdateWorkflow (getProp args ''workflowId'') payload]
      \<and> payload k = Some JNull"
    by blast
next
  fix r w'
  assume g: "getWorkflow api (getProp args ''workflowId'') (remote w) = (Inr cur, s)"
    and run: "execute_fn api f args w = (Inr r, w')"
  from execute_fn_InrD [OF run g] obtain upd changes where
    r: "r = f [''id'' \<mapsto> getProp upd ''id'', ''name'' \<mapsto> getProp upd ''name'',
               ''active'' \<mapsto> getProp upd ''active'']
              (''Workflow updated successfully. '' @ changesSummary changes)"
    and c: "changesArray args cur = (Inr changes :: 'e thrown + string list)"
    by (elim exE conjE)
  from null have "getProp args k = JNull" by simp
  with k have "(k @ '' updated'') \<in> set (fieldEntries args)"
    by (auto simp add: fieldEntries_mem)
  with changesArray_fieldEntries [OF c] have m: "(k @ '' updated'') \<in> set changes" by blast
  then have "changes \<noteq> []" by auto
  then have sm: "changesSummary changes = ''Changes: '' @ join '', '' changes"
    by (simp add: changesSummary_def)
  from r m sm show "\<exists>changes upd.
      r = f [''id'' \<mapsto> getProp upd ''id'', ''name'' \<mapsto> getProp upd ''name'',
             ''active'' \<mapsto> getProp upd ''active'']
            (''Workflow updated successfully. '' @ changesSummary changes)
      \<and> (k @ '' updated'') \<in> set changes
      \<and> changesSummary changes = ''Changes: '' @ join '', '' changes"
    by blast
qed

text \<open>
  A request whose nodes are null, against the stored workflow, whose nodes are an array.
\<close>

theorem null_field_counts_as_present_witness:
  "''nodes'' \<in> {''nodes'', ''connections'', ''settings'', ''staticData''}
   \<and> [''workflowId'' \<mapsto> JString ''42'', ''nodes'' \<mapsto> JNull] ''nodes'' = Some JNull
   \<and> validate [''workflowId'' \<mapsto> JString ''42'', ''nodes'' \<mapsto> JNull] =
       (None :: string thrown option)
   \<and> validate ([''workflowId'' \<mapsto> JString ''42'', ''nodes'' \<mapsto> JNull](''nodes'' := None)) =
       (None :: string thrown option)
   \<and> getWorkflow memoryApi
       (getProp [''workflowId'' \<mapsto> JString ''42'', ''nodes'' \<mapsto> JNull] ''workflowId'')
       (remote w0) = (Inr storedWorkflow, storedWorkflow)
   \<and> getProp storedWorkflow ''nodes'' = JArray 1 []
   \<and> (\<exists>payload.
        calls (snd (execute_fn memoryApi Pair
          [''workflowId'' \<mapsto> JString ''42'', ''nodes'' \<mapsto> JNull] w0)) =
          [GetWorkflow (JString ''42''), UpdateWorkflow (JString ''42'') payload]
        \<and> payload ''nodes'' = Some JNull)
   \<and> fst (execute_fn memoryApi Pair [''workflowId'' \<mapsto> JString ''42'', ''nodes'' \<mapsto> JNull] w0) =
       Inr ([''id'' \<mapsto> JString ''42'', ''name'' \<mapsto> JString ''A'', ''active'' \<mapsto> JBool False],
            ''Workflow updated successfully. Changes: nodes updated'')
   \<and> (\<exists>changes upd.
        ([''id'' \<mapsto> JString ''42'', ''name'' \<mapsto> JString ''A'', ''active'' \<mapsto> JBool False],
         ''Workflow updated successfully. Changes: nodes updated'') =
          ([''id'' \<mapsto> getProp upd ''id'', ''name'' \<mapsto> getProp upd ''name'',
            ''active'' \<mapsto> getProp upd ''active''],
           ''Workflow updated successfully. '' @ changesSummary changes)
        \<and> ''nodes updated'' \<in> set changes)"
proof -
  let ?args = "[''workflowId'' \<mapsto> JString ''42'', ''nodes'' \<mapsto> JNull]"
  let ?upd = "storedWorkflow ++ workflowData ?args storedWorkflow"
  let ?r = "([''id'' \<mapsto> JString ''42'', ''name'' \<mapsto> JString ''A'', ''active'' \<mapsto> JBool False],
    ''Workflow updated successfully. Changes: nodes updated'')"
  have k: "''nodes'' \<in> {''nodes'', ''connections'', ''settings'', ''staticData''}" by simp
  have null: "?args ''nodes'' = Some JNull" by simp
  have v: "validate ?args = (None :: string thrown option)"
    by (simp add: validate_def getProp_def)
  have g: "getWorkflow memoryApi (getProp ?args ''workflowId'') (remote w0) =
      (Inr storedWorkflow, storedWorkflow)"
    by (simp add: memoryApi_def w0_def)
  have st: "getProp storedWorkflow ''nodes'' = JArray 1 []"
    by (simp add: getProp_def storedWorkflow_def)
  have u: "updateWorkflow memoryApi (getProp ?args ''workflowId'')
      (workflowData ?args storedWorkflow) storedWorkflow = (Inr ?upd, ?upd)"
    by (simp add: memoryApi_def)
  have c: "changesArray ?args storedWorkflow =
      (Inr [''nodes updated''] :: string thrown + string list)"
    by (simp add: changesArray_def getProp_def)
  have run: "execute_fn memoryApi Pair ?args w0 =
      (Inr ?r,
       \<lparr>calls = [GetWorkflow (JString ''42''),
          UpdateWorkflow (JString ''42'') (workflowData ?args storedWorkflow)],
        remote = ?upd\<rparr>)"
    unfolding execute_fn_updated [OF v g u, of Pair] c
    by (simp add: getProp_def map_add_def workflowData_apply storedWorkflow_def
        changesSummary_def w0_def)
  note inst = null_field_counts_as_present [where k = "''nodes''" and args = ?args
      and api = memoryApi and w = w0 and cur = storedWorkflow and s = storedWorkflow
      and f = Pair, OF k null]
  from inst have v': "validate (?args(''nodes'' := None)) = (None :: string thrown option)"
    using v by simp
  from inst v g have "\<exists>payload.
      calls (snd (execute_fn memoryApi Pair ?args w0)) =
        calls w0 @ [GetWorkflow (getProp ?args ''workflowId''),
                    UpdateWorkflow (getProp ?args ''workflowId'') payload]
      \<and> payload ''nodes'' = Some JNull" by blast
  then have p: "\<exists>payload.
      calls (snd (execute_fn memoryApi Pair ?args w0)) =
        [GetWorkflow (JString ''42''), UpdateWorkflow (JString ''42'') payload]
      \<and> payload ''nodes'' = Some JNull"
    by (simp add: w0_def getProp_def)
  from inst v g run have e: "\<exists>changes upd.
      ?r = ([''id'' \<mapsto> getProp upd ''id'', ''name'' \<mapsto> getProp upd ''name'',
             ''active'' \<mapsto> getProp upd ''active''],
            ''Workflow updated successfully. '' @ changesSummary changes)
      \<and> (''nodes'' @ '' updated'') \<in> set changes
      \<and> changesSummary changes = ''Changes: '' @ join '', '' changes" by blast
  then have e': "\<exists>changes upd.
      ?r = ([''id'' \<mapsto> getProp upd ''id'', ''name'' \<mapsto> getProp upd ''name'',
             ''active'' \<mapsto> getProp upd ''active''],
            ''Workflow updated successfully. '' @ changesSummary changes)
      \<and> ''nodes updated'' \<in> set changes" by auto
  from run have res: "fst (execute_fn memoryApi Pair ?args w0) = Inr ?r" by simp
  show ?thesis
    by (rule conjI [OF k conjI [OF null conjI [OF v conjI [OF v' conjI [OF g
      conjI [OF st conjI [OF p conjI [OF res e']]]]]]]])
qed

subsection \<open>The change summary\<close>

text \<open>
  C2, as the code has it. When validation passes, both remote calls succeed and the
  name entry can be written (the name is not supplied, or is \<^verbatim>\<open>===\<close> to the fetched
  name, or both names have a string conversion), the operation returns its result with
  the text "Workflow updated successfully. " followed by the summary of the entries
  \<open>changes\<close>, where:
  \<^item> if \<^verbatim>\<open>name\<close> was supplied and is not \<^verbatim>\<open>===\<close> to the fetched name, the first
    entry is the name entry, \<^verbatim>\<open>name: "old"\<close>, a separator, \<^verbatim>\<open>"new"\<close>, old and new
    being the fetched and the supplied name as strings, and no other entry is about the
    name; otherwise no entry is about the name;
  \<^item> each of "nodes updated", "connections updated", "settings updated" and
    "staticData updated" is an entry exactly when the request supplied that field, whatever
    the stored value is;
  \<^item> the summary is "No changes were made" when there is no entry, which is so when
    none of the five fields was supplied, and "Changes: " followed by the entries joined
    with ", " otherwise.

  The separator of the name entry is left open here: see \<open>arrow_is_not_U2192\<close>.
\<close>

theorem change_summary_entries:
  fixes api :: "('e, 's) apiService"
  assumes v: "validate args = (None :: 'e thrown option)"
    and g: "getWorkflow api (getProp args ''workflowId'') (remote w) = (Inr cur, s)"
    and u: "updateWorkflow api (getProp args ''workflowId'') (workflowData args cur) s =
      (Inr upd, t)"
    and n: "getProp args ''name'' = JUndefined
      \<or> strict_equals (getProp args ''name'') (getProp cur ''name'')
      \<or> (ToString (getProp cur ''name'') \<noteq> None \<and> ToString (getProp args ''name'') \<noteq> None)"
  shows "\<exists>changes.
     execute_fn api f args w =
       (Inr (f [''id'' \<mapsto> getProp upd ''id'', ''name'' \<mapsto> getProp upd ''name'',
                ''active'' \<mapsto> getProp upd ''active'']
               (''Workflow updated successfully. '' @ changesSummary changes)),
        \<lparr>calls = calls w @ [GetWorkflow (getProp args ''workflowId''),
           UpdateWorkflow (getProp args ''workflowId'') (workflowData args cur)],
         remote = t\<rparr>)
     \<and> changesArray args cur = (Inr changes :: 'e thrown + string list)
     \<and> (if getProp args ''name'' \<noteq> JUndefined
            \<and> \<not> strict_equals (getProp args ''name'') (getProp cur ''name'')
         then \<exists>old new sep rest.
                ToString (getProp cur ''name'') = Some old
                \<and> ToString (getProp args ''name'') = Some new
                \<and> changes = (''name: \"'' @ old @ ''\" '' @ sep @ '' \"'' @ new @ ''\"'') # rest
                \<and> set rest \<subseteq> {''nodes updated'', ''connections updated'',
                                ''settings updated'', ''staticData updated''}
         else set changes \<subseteq> {''nodes updated'', ''connections updated'',
                                ''settings updated'', ''staticData updated''})
     \<and> (''nodes updated'' \<in> set changes \<longleftrightarrow> getProp args ''nodes'' \<noteq> JUndefined)
     \<and> (''connections updated'' \<in> set changes \<longleftrightarrow>
          getProp args ''connections'' \<noteq> JUndefined)
     \<and> (''settings updated'' \<in> set changes \<longleftrightarrow> getProp args ''settings'' \<noteq> JUndefined)
     \<and> (''staticData updated'' \<in> set changes \<longleftrightarrow>
          getProp args ''staticData'' \<noteq> JUndefined)
     \<and> ((\<forall>k \<in> {''name'', ''nodes'', ''connections'', ''settings'', ''staticData''}.
            getProp args k = JUndefined) \<longrightarrow> changes = [])
     \<and> changesSummary changes =
          (if changes = [] then ''No changes were made''
           else ''Changes: '' @ join '', '' changes)"
proof -
  let ?four = "{''nodes updated'', ''connections updated'', ''settings updated'',
    ''staticData updated''}"
  let ?cond = "getProp args ''name'' \<noteq> JUndefined
    \<and> \<not> strict_equals (getProp args ''name'') (getProp cur ''name'')"
  have "\<exists>changes. changesArray args cur = (Inr changes :: 'e thrown + string list)"
  proof (cases "getProp args ''name'' = JUndefined
      \<or> strict_equals (getProp args ''name'') (getProp cur ''name'')")
    case True
    then show ?thesis by (auto simp add: changesArray_eq)
  next
    case False
    with n obtain a b where "ToString (getProp cur ''name'') = Some a"
      and "ToString (getProp args ''name'') = Some b" by auto
    then have "\<exists>entry. nameChange (getProp cur ''name'') (getProp args ''name'') = Some entry"
      by (simp add: nameChange_def)
    with False show ?thesis by (auto simp add: changesArray_eq)
  qed
  then obtain changes where
    c: "changesArray args cur = (Inr changes :: 'e thrown + string list)" ..
  have r: "execute_fn api f args w =
       (Inr (f [''id'' \<mapsto> getProp upd ''id'', ''name'' \<mapsto> getProp upd ''name'',
                ''active'' \<mapsto> getProp upd ''active'']
               (''Workflow updated successfully. '' @ changesSummary changes)),
        \<lparr>calls = calls w @ [GetWorkflow (getProp args ''workflowId''),
           UpdateWorkflow (getProp args ''workflowId'') (workflowData args cur)],
         remote = t\<rparr>)"
    by (simp add: c execute_fn_updated [OF v g u])
  have shape: "(?cond \<and> (\<exists>entry. nameChange (getProp cur ''name'') (getProp args ''name'')
        = Some entry \<and> changes = entry # fieldEntries args))
      \<or> (\<not> ?cond \<and> changes = fieldEntries args)"
    using c unfolding changesArray_eq by (simp split: if_splits option.splits)
  have name: "if ?cond
      then \<exists>old new sep rest.
             ToString (getProp cur ''name'') = Some old
             \<and> ToString (getProp args ''name'') = Some new
             \<and> changes = (''name: \"'' @ old @ ''\" '' @ sep @ '' \"'' @ new @ ''\"'') # rest
             \<and> set rest \<subseteq> ?four
      else set changes \<subseteq> ?four"
  proof (cases ?cond)
    case True
    with shape obtain entry where
      e: "nameChange (getProp cur ''name'') (getProp args ''name'') = Some entry"
      and ch: "changes = entry # fieldEntries args" by blast
    from nameChange_SomeD [OF e] obtain old new where
      "ToString (getProp cur ''name'') = Some old"
      "ToString (getProp args ''name'') = Some new"
      "entry = ''name: \"'' @ old @ ''\" '' @ arrow @ '' \"'' @ new @ ''\"''" by blast
    with ch fieldEntries_set [of args] have "\<exists>old new sep rest.
             ToString (getProp cur ''name'') = Some old
             \<and> ToString (getProp args ''name'') = Some new
             \<and> changes = (''name: \"'' @ old @ ''\" '' @ sep @ '' \"'' @ new @ ''\"'') # rest
             \<and> set rest \<subseteq> ?four" by blast
    then show ?thesis by (subst if_P [OF True])
  next
    case False
    with shape have "changes = fieldEntries args" by blast
    with fieldEntries_set [of args] have "set changes \<subseteq> ?four" by simp
    then show ?thesis by (subst if_not_P [OF False])
  qed
  have mem: "\<And>x. x \<in> ?four \<Longrightarrow> x \<in> set changes \<longleftrightarrow> x \<in> set (fieldEntries args)"
  proof -
    fix x assume x: "x \<in> ?four"
    from shape show "x \<in> set changes \<longleftrightarrow> x \<in> set (fieldEntries args)"
    proof (elim disjE conjE exE)
      fix entry
      assume e: "nameChange (getProp cur ''name'') (getProp args ''name'') = Some entry"
        and ch: "changes = entry # fieldEntries args"
      from nameChange_not_field [OF e] x have "x \<noteq> entry" by blast
      with ch show ?thesis by simp
    next
      assume "changes = fieldEntries args"
      then show ?thesis by simp
    qed
  qed
  have m1: "''nodes updated'' \<in> set changes \<longleftrightarrow> getProp args ''nodes'' \<noteq> JUndefined"
    by (subst mem) (simp_all only: fieldEntries_mem insertI1 insertI2)
  have m2: "''connections updated'' \<in> set changes \<longleftrightarrow>
      getProp args ''connections'' \<noteq> JUndefined"
    by (subst mem) (simp_all only: fieldEntries_mem insertI1 insertI2)
  have m3: "''settings updated'' \<in> set changes \<longleftrightarrow> getProp args ''settings'' \<noteq> JUndefined"
    by (subst mem) (simp_all only: fieldEntries_mem insertI1 insertI2)
  have m4: "''staticData updated'' \<in> set changes \<longleftrightarrow>
      getProp args ''staticData'' \<noteq> JUndefined"
    by (subst mem) (simp_all only: fieldEntries_mem insertI1 insertI2)
  have none: "(\<forall>k \<in> {''name'', ''nodes'', ''connections'', ''settings'', ''staticData''}.
      getProp args k = JUndefined) \<longrightarrow> changes = []"
  proof
    assume a: "\<forall>k \<in> {''name'', ''nodes'', ''connections'', ''settings'', ''staticData''}.
      getProp args k = JUndefined"
    then have un: "getProp args ''name'' = JUndefined" "getProp args ''nodes'' = JUndefined"
      "getProp args ''connections'' = JUndefined" "getProp args ''settings'' = JUndefined"
      "getProp args ''staticData'' = JUndefined" by simp_all
    with shape have "changes = fieldEntries args" by blast
    with un show "changes = []" by (simp add: fieldEntries_def)
  qed
  have summary: "changesSummary changes =
      (if changes = [] then ''No changes were made'' else ''Changes: '' @ join '', '' changes)"
    by (simp add: changesSummary_def)
  show ?thesis
    by (rule exI [of _ changes])
      (rule conjI [OF r conjI [OF c conjI [OF name conjI [OF m1 conjI [OF m2
        conjI [OF m3 conjI [OF m4 conjI [OF none summary]]]]]]]])
qed

text \<open>
  A request that renames the stored workflow and supplies the very array of nodes that
  is stored: both the name and the nodes are reported.
\<close>

theorem change_summary_entries_witness:
  "validate [''workflowId'' \<mapsto> JString ''42'', ''name'' \<mapsto> JString ''B'', ''nodes'' \<mapsto> JArray 1 []] =
     (None :: string thrown option)
   \<and> getWorkflow memoryApi
       (getProp [''workflowId'' \<mapsto> JString ''42'', ''name'' \<mapsto> JString ''B'',
                 ''nodes'' \<mapsto> JArray 1 []] ''workflowId'')
       (remote w0) = (Inr storedWorkflow, storedWorkflow)
   \<and> updateWorkflow memoryApi
       (getProp [''workflowId'' \<mapsto> JString ''42'', ''name'' \<mapsto> JString ''B'',
                 ''nodes'' \<mapsto> JArray 1 []] ''workflowId'')
       (workflowData
          [''workflowId'' \<mapsto> JString ''42'', ''name'' \<mapsto> JString ''B'', ''nodes'' \<mapsto> JArray 1 []]
          storedWorkflow)
       storedWorkflow =
       (Inr (storedWorkflow ++
          workflowData
            [''workflowId'' \<mapsto> JString ''42'', ''name'' \<mapsto> JString ''B'',
             ''nodes'' \<mapsto> JArray 1 []] storedWorkflow),
        storedWorkflow ++
          workflowData
            [''workflowId'' \<mapsto> JString ''42'', ''name'' \<mapsto> JString ''B'',
             ''nodes'' \<mapsto> JArray 1 []] storedWorkflow)
   \<and> ToString (getProp storedWorkflow ''name'') \<noteq> None
   \<and> ToString (getProp [''workflowId'' \<mapsto> JString ''42'', ''name'' \<mapsto> JString ''B'',
                          ''nodes'' \<mapsto> JArray 1 []] ''name'') \<noteq> None
   \<and> (\<exists>changes.
        fst (execute_fn memoryApi Pair
          [''workflowId'' \<mapsto> JString ''42'', ''name'' \<mapsto> JString ''B'', ''nodes'' \<mapsto> JArray 1 []]
          w0) =
          Inr ([''id'' \<mapsto> JString ''42'', ''name'' \<mapsto> JString ''B'', ''active'' \<mapsto> JBool False],
               ''Workflow updated successfully. Changes: '' @ join '', '' changes)
        \<and> (\<exists>sep rest. changes = (''name: \"A\" '' @ sep @ '' \"B\"'') # rest)
        \<and> ''nodes updated'' \<in> set changes
        \<and> ''connections updated'' \<notin> set changes
        \<and> ''settings updated'' \<notin> set changes
        \<and> ''staticData updated'' \<notin> set changes)"
proof -
  let ?args = "[''workflowId'' \<mapsto> JString ''42'', ''name'' \<mapsto> JString ''B'',
    ''nodes'' \<mapsto> JArray 1 []]"
  let ?upd = "storedWorkflow ++ workflowData ?args storedWorkflow"
  have v: "validate ?args = (None :: string thrown option)"
    by (simp add: validate_def getProp_def)
  have g: "getWorkflow memoryApi (getProp ?args ''workflowId'') (remote w0) =
      (Inr storedWorkflow, storedWorkflow)"
    by (simp add: memoryApi_def w0_def)
  have u: "updateWorkflow memoryApi (getProp ?args ''workflowId'')
      (workflowData ?args storedWorkflow) storedWorkflow = (Inr ?upd, ?upd)"
    by (simp add: memoryApi_def)
  have n1: "ToString (getProp storedWorkflow ''name'') \<noteq> None"
    by (simp add: getProp_def storedWorkflow_def)
  have n2: "ToString (getProp ?args ''name'') \<noteq> None"
    by (simp add: getProp_def)
  have cond: "getProp ?args ''name'' \<noteq> JUndefined
      \<and> \<not> strict_equals (getProp ?args ''name'') (getProp storedWorkflow ''name'')"
    by (simp add: getProp_def storedWorkflow_def)
  from change_summary_entries [OF v g u, of Pair] n1 n2 obtain changes where
    r: "execute_fn memoryApi Pair ?args w0 =
       (Inr ([''id'' \<mapsto> getProp ?upd ''id'', ''name'' \<mapsto> getProp ?upd ''name'',
              ''active'' \<mapsto> getProp ?upd ''active''],
             ''Workflow updated successfully. '' @ changesSummary changes),
        \<lparr>calls = calls w0 @ [GetWorkflow (getProp ?args ''workflowId''),
           UpdateWorkflow (getProp ?args ''workflowId'') (workflowData ?args storedWorkflow)],
         remote = ?upd\<rparr>)"
    and nm: "if getProp ?args ''name'' \<noteq> JUndefined
            \<and> \<not> strict_equals (getProp ?args ''name'') (getProp storedWorkflow ''name'')
         then \<exists>old new sep rest.
                ToString (getProp storedWorkflow ''name'') = Some old
                \<and> ToString (getProp ?args ''name'') = Some new
                \<and> changes = (''name: \"'' @ old @ ''\" '' @ sep @ '' \"'' @ new @ ''\"'') # rest
                \<and> set rest \<subseteq> {''nodes updated'', ''connections updated'',
                                ''settings updated'', ''staticData updated''}
         else set changes \<subseteq> {''nodes updated'', ''connections updated'',
                                ''settings updated'', ''staticData updated''}"
    and m1: "''nodes updated'' \<in> set changes \<longleftrightarrow> getProp ?args ''nodes'' \<noteq> JUndefined"
    and m2: "''connections updated'' \<in> set changes \<longleftrightarrow>
      getProp ?args ''connections'' \<noteq> JUndefined"
    and m3: "''settings updated'' \<in> set changes \<longleftrightarrow> getProp ?args ''settings'' \<noteq> JUndefined"
    and m4: "''staticData updated'' \<in> set changes \<longleftrightarrow>
      getProp ?args ''staticData'' \<noteq> JUndefined"
    and sm: "changesSummary changes =
      (if changes = [] then ''No changes were made'' else ''Changes: '' @ join '', '' changes)"
    by blast
  from nm have "\<exists>old new sep rest.
      ToString (getProp storedWorkflow ''name'') = Some old
      \<and> ToString (getProp ?args ''name'') = Some new
      \<and> changes = (''name: \"'' @ old @ ''\" '' @ sep @ '' \"'' @ new @ ''\"'') # rest
      \<and> set rest \<subseteq> {''nodes updated'', ''connections updated'',
                      ''settings updated'', ''staticData updated''}"
    by (subst (asm) if_P [OF cond])
  then have f0: "\<exists>sep rest. changes = (''name: \"A\" '' @ sep @ '' \"B\"'') # rest"
    by (auto simp add: getProp_def storedWorkflow_def)
  then have ne: "changes \<noteq> []" by auto
  from m1 have f1: "''nodes updated'' \<in> set changes" by (simp add: getProp_def)
  from m2 have f2: "''connections updated'' \<notin> set changes" by (simp add: getProp_def)
  from m3 have f3: "''settings updated'' \<notin> set changes" by (simp add: getProp_def)
  from m4 have f4: "''staticData updated'' \<notin> set changes" by (simp add: getProp_def)
  from sm ne have sm': "changesSummary changes = ''Changes: '' @ join '', '' changes" by simp
  from r have res: "fst (execute_fn memoryApi Pair ?args w0) =
      Inr ([''id'' \<mapsto> JString ''42'', ''name'' \<mapsto> JString ''B'', ''active'' \<mapsto> JBool False],
           ''Workflow updated successfully. Changes: '' @ join '', '' changes)"
    by (simp add: sm' getProp_def map_add_def workflowData_apply storedWorkflow_def)
  have ex: "\<exists>changes.
        fst (execute_fn memoryApi Pair ?args w0) =
          Inr ([''id'' \<mapsto> JString ''42'', ''name'' \<mapsto> JString ''B'', ''active'' \<mapsto> JBool False],
               ''Workflow updated successfully. Changes: '' @ join '', '' changes)
        \<and> (\<exists>sep rest. changes = (''name: \"A\" '' @ sep @ '' \"B\"'') # rest)
        \<and> ''nodes updated'' \<in> set changes
        \<and> ''connections updated'' \<notin> set changes
        \<and> ''settings updated'' \<notin> set changes
        \<and> ''staticData updated'' \<notin> set changes"
    by (rule exI [of _ changes])
      (rule conjI [OF res conjI [OF f0 conjI [OF f1 conjI [OF f2 conjI [OF f3 f4]]]]])
  show ?thesis
    by (rule conjI [OF v conjI [OF g conjI [OF u conjI [OF n1 conjI [OF n2 ex]]]]])
qed

text \<open>
  C2, as the claim states it, fails: a request passes validation and both remote calls
  succeed, the name is supplied and is not \<^verbatim>\<open>===\<close> to the fetched name, and the nodes
  are supplied, yet nothing is reported: the name is an object with a property named
  \<^verbatim>\<open>toString\<close>, the template literal of line 70 throws a \<^verbatim>\<open>TypeError\<close>, and the
  operation ends with it instead of a summary.
\<close>

theorem unwritable_name_entry_counterexample:
  "validate [''workflowId'' \<mapsto> JString ''42'', ''name'' \<mapsto> JObject 8 [(''toString'', JNull)],
             ''nodes'' \<mapsto> JArray 5 []] = (None :: string thrown option)
   \<and> fst (getWorkflow memoryApi (JString ''42'') (remote w0)) = Inr storedWorkflow
   \<and> fst (updateWorkflow memoryApi (JString ''42'')
        (workflowData
           [''workflowId'' \<mapsto> JString ''42'', ''name'' \<mapsto> JObject 8 [(''toString'', JNull)],
            ''nodes'' \<mapsto> JArray 5 []] storedWorkflow)
        storedWorkflow) =
       Inr (storedWorkflow ++
         workflowData
           [''workflowId'' \<mapsto> JString ''42'', ''name'' \<mapsto> JObject 8 [(''toString'', JNull)],
            ''nodes'' \<mapsto> JArray 5 []] storedWorkflow)
   \<and> getProp [''workflowId'' \<mapsto> JString ''42'', ''name'' \<mapsto> JObject 8 [(''toString'', JNull)],
               ''nodes'' \<mapsto> JArray 5 []] ''name'' \<noteq> JUndefined
   \<and> \<not> strict_equals
         (getProp [''workflowId'' \<mapsto> JString ''42'',
                   ''name'' \<mapsto> JObject 8 [(''toString'', JNull)],
                   ''nodes'' \<mapsto> JArray 5 []] ''name'')
         (getProp storedWorkflow ''name'')
   \<and> getProp [''workflowId'' \<mapsto> JString ''42'', ''name'' \<mapsto> JObject 8 [(''toString'', JNull)],
               ''nodes'' \<mapsto> JArray 5 []] ''nodes'' \<noteq> JUndefined
   \<and> execute_fn memoryApi Pair
        [''workflowId'' \<mapsto> JString ''42'', ''name'' \<mapsto> JObject 8 [(''toString'', JNull)],
         ''nodes'' \<mapsto> JArray 5 []] w0 =
       (Inl TypeError,
        \<lparr>calls = [GetWorkflow (JString ''42''),
           UpdateWorkflow (JString ''42'')
             (workflowData
                [''workflowId'' \<mapsto> JString ''42'',
                 ''name'' \<mapsto> JObject 8 [(''toString'', JNull)],
                 ''nodes'' \<mapsto> JArray 5 []] storedWorkflow)],
         remote = storedWorkflow ++
           workflowData
             [''workflowId'' \<mapsto> JString ''42'',
              ''name'' \<mapsto> JObject 8 [(''toString'', JNull)],
              ''nodes'' \<mapsto> JArray 5 []] storedWorkflow\<rparr>)"
proof -
  let ?args = "[''workflowId'' \<mapsto> JString ''42'',
    ''name'' \<mapsto> JObject 8 [(''toString'', JNull)], ''nodes'' \<mapsto> JArray 5 []]"
  let ?upd = "storedWorkflow ++ workflowData ?args storedWorkflow"
  have v: "validate ?args = (None :: string thrown option)"
    by (simp add: validate_def getProp_def)
  have g: "getWorkflow memoryApi (getProp ?args ''workflowId'') (remote w0) =
      (Inr storedWorkflow, storedWorkflow)"
    by (simp add: memoryApi_def w0_def)
  have u: "updateWorkflow memoryApi (getProp ?args ''workflowId'')
      (workflowData ?args storedWorkflow) storedWorkflow = (Inr ?upd, ?upd)"
    by (simp add: memoryApi_def)
  have c: "changesArray ?args storedWorkflow = (Inl TypeError :: string thrown + string list)"
    by (simp add: changesArray_def getProp_def nameChange_def storedWorkflow_def)
  have g': "fst (getWorkflow memoryApi (JString ''42'') (remote w0)) = Inr storedWorkflow"
    by (simp add: memoryApi_def w0_def)
  have u': "fst (updateWorkflow memoryApi (JString ''42'')
      (workflowData ?args storedWorkflow) storedWorkflow) = Inr ?upd"
    by (simp add: memoryApi_def)
  have p1: "getProp ?args ''name'' \<noteq> JUndefined" by (simp add: getProp_def)
  have p2: "\<not> strict_equals (getProp ?args ''name'') (getProp storedWorkflow ''name'')"
    by (simp add: getProp_def storedWorkflow_def)
  have p3: "getProp ?args ''nodes'' \<noteq> JUndefined" by (simp add: getProp_def)
  have r: "execute_fn memoryApi Pair ?args w0 =
       (Inl TypeError,
        \<lparr>calls = [GetWorkflow (JString ''42''),
           UpdateWorkflow (JString ''42'') (workflowData ?args storedWorkflow)],
         remote = ?upd\<rparr>)"
    unfolding execute_fn_updated [OF v g u, of Pair] c
    by (simp add: getProp_def w0_def)
  show ?thesis
    by (rule conjI [OF v conjI [OF g' conjI [OF u' conjI [OF p1 conjI [OF p2
      conjI [OF p3 r]]]]]])
qed

text \<open>
  C10. When the request supplies the name only, and the name is \<^verbatim>\<open>===\<close> to the name
  of the fetched workflow, then, the two remote calls having succeeded, the operation
  reports "No changes were made"; the \<^verbatim>\<open>updateWorkflow\<close> call is in the log all the
  same, and its payload carries the supplied name.
\<close>

theorem same_name_reports_no_changes:
  fixes api :: "('e, 's) apiService"
  assumes v: "validate args = (None :: 'e thrown option)"
    and name: "getProp args ''name'' \<noteq> JUndefined"
    and same: "strict_equals (getProp args ''name'') (getProp cur ''name'')"
    and others: "getProp args ''nodes'' = JUndefined" "getProp args ''connections'' = JUndefined"
      "getProp args ''settings'' = JUndefined" "getProp args ''staticData'' = JUndefined"
    and g: "getWorkflow api (getProp args ''workflowId'') (remote w) = (Inr cur, s)"
    and u: "updateWorkflow api (getProp args ''workflowId'') (workflowData args cur) s =
      (Inr upd, t)"
  shows "execute_fn api f args w =
     (Inr (f [''id'' \<mapsto> getProp upd ''id'', ''name'' \<mapsto> getProp upd ''name'',
              ''active'' \<mapsto> getProp upd ''active'']
             ''Workflow updated successfully. No changes were made''),
      \<lparr>calls = calls w @ [GetWorkflow (getProp args ''workflowId''),
         UpdateWorkflow (getProp args ''workflowId'') (workflowData args cur)],
       remote = t\<rparr>)
     \<and> workflowData args cur ''name'' = Some (getProp args ''name'')"
proof -
  from same others have c: "changesArray args cur = (Inr [] :: 'e thrown + string list)"
    by (simp add: changesArray_eq fieldEntries_def)
  have p: "workflowData args cur ''name'' = Some (getProp args ''name'')"
    using name by (simp only: workflowData_apply) simp
  from c p show ?thesis
    by (simp add: execute_fn_updated [OF v g u] changesSummary_def)
qed

text \<open>
  A request that supplies the stored name and nothing else.
\<close>

theorem same_name_reports_no_changes_witness:
  "validate [''workflowId'' \<mapsto> JString ''42'', ''name'' \<mapsto> JString ''A''] =
     (None :: string thrown option)
   \<and> getProp [''workflowId'' \<mapsto> JString ''42'', ''name'' \<mapsto> JString ''A''] ''name''
       \<noteq> JUndefined
   \<and> strict_equals
       (getProp [''workflowId'' \<mapsto> JString ''42'', ''name'' \<mapsto> JString ''A''] ''name'')
       (getProp storedWorkflow ''name'')
   \<and> execute_fn memoryApi Pair [''workflowId'' \<mapsto> JString ''42'', ''name'' \<mapsto> JString ''A''] w0 =
       (Inr ([''id'' \<mapsto> JString ''42'', ''name'' \<mapsto> JString ''A'', ''active'' \<mapsto> JBool False],
             ''Workflow updated successfully. No changes were made''),
        \<lparr>calls = [GetWorkflow (JString ''42''),
           UpdateWorkflow (JString ''42'')
             (workflowData [''workflowId'' \<mapsto> JString ''42'', ''name'' \<mapsto> JString ''A'']
                storedWorkflow)],
         remote = storedWorkflow ++
           workflowData [''workflowId'' \<mapsto> JString ''42'', ''name'' \<mapsto> JString ''A'']
             storedWorkflow\<rparr>)
   \<and> workflowData [''workflowId'' \<mapsto> JString ''42'', ''name'' \<mapsto> JString ''A'']
        storedWorkflow ''name'' = Some (JString ''A'')"
proof -
  let ?args = "[''workflowId'' \<mapsto> JString ''42'', ''name'' \<mapsto> JString ''A'']"
  let ?upd = "storedWorkflow ++ workflowData ?args storedWorkflow"
  have v: "validate ?args = (None :: string thrown option)"
    by (simp add: validate_def getProp_def)
  have name: "getProp ?args ''name'' \<noteq> JUndefined" by (simp add: getProp_def)
  have same: "strict_equals (getProp ?args ''name'') (getProp storedWorkflow ''name'')"
    by (simp add: getProp_def storedWorkflow_def)
  have others: "getProp ?args ''nodes'' = JUndefined" "getProp ?args ''connections'' = JUndefined"
    "getProp ?args ''settings'' = JUndefined" "getProp ?args ''staticData'' = JUndefined"
    by (simp_all add: getProp_def)
  have g: "getWorkflow memoryApi (getProp ?args ''workflowId'') (remote w0) =
      (Inr storedWorkflow, storedWorkflow)"
    by (simp add: memoryApi_def w0_def)
  have u: "updateWorkflow memoryApi (getProp ?args ''workflowId'')
      (workflowData ?args storedWorkflow) storedWorkflow = (Inr ?upd, ?upd)"
    by (simp add: memoryApi_def)
  from same_name_reports_no_changes [OF v name same others g u, of Pair]
  have res: "execute_fn memoryApi Pair ?args w0 =
       (Inr ([''id'' \<mapsto> JString ''42'', ''name'' \<mapsto> JString ''A'', ''active'' \<mapsto> JBool False],
             ''Workflow updated successfully. No changes were made''),
        \<lparr>calls = [GetWorkflow (JString ''42''),
           UpdateWorkflow (JString ''42'') (workflowData ?args storedWorkflow)],
         remote = ?upd\<rparr>)
     \<and> workflowData ?args storedWorkflow ''name'' = Some (JString ''A'')"
    by (simp add: getProp_def map_add_def workflowData_apply storedWorkflow_def w0_def)
  show ?thesis by (rule conjI [OF v conjI [OF name conjI [OF same res]]])
qed

subsection \<open>The result\<close>

text \<open>
  C7, as the code has it. When both remote calls succeed and the name entry can be
  written (the name is not supplied, or is \<^verbatim>\<open>===\<close> to the fetched name, or both
  names have a string conversion), the operation returns
  \<^verbatim>\<open>formatSuccess(data, message)\<close>, where the data are exactly the \<^verbatim>\<open>id\<close>, the
  \<^verbatim>\<open>name\<close> and the \<^verbatim>\<open>active\<close> of the workflow that \<^verbatim>\<open>updateWorkflow\<close> answered
  with, and the message is "Workflow updated successfully. " followed by the change
  summary.
\<close>

theorem success_result:
  fixes api :: "('e, 's) apiService"
  assumes v: "validate args = (None :: 'e thrown option)"
    and g: "getWorkflow api (getProp args ''workflowId'') (remote w) = (Inr cur, s)"
    and u: "updateWorkflow api (getProp args ''workflowId'') (workflowData args cur) s =
      (Inr upd, t)"
    and n: "getProp args ''name'' = JUndefined
      \<or> strict_equals (getProp args ''name'') (getProp cur ''name'')
      \<or> (ToString (getProp cur ''name'') \<noteq> None \<and> ToString (getProp args ''name'') \<noteq> None)"
  shows "\<exists>changes.
     changesArray args cur = (Inr changes :: 'e thrown + string list)
     \<and> execute_fn api f args w =
         (Inr (f [''id'' \<mapsto> getProp upd ''id'', ''name'' \<mapsto> getProp upd ''name'',
                  ''active'' \<mapsto> getProp upd ''active'']
                 (''Workflow updated successfully. '' @ changesSummary changes)),
          \<lparr>calls = calls w @ [GetWorkflow (getProp args ''workflowId''),
             UpdateWorkflow (getProp args ''workflowId'') (workflowData args cur)],
           remote = t\<rparr>)"
proof -
  have "\<exists>changes. changesArray args cur = (Inr changes :: 'e thrown + string list)"
  proof (cases "getProp args ''name'' = JUndefined
      \<or> strict_equals (getProp args ''name'') (getProp cur ''name'')")
    case True
    then show ?thesis by (auto simp add: changesArray_eq)
  next
    case False
    with n obtain a b where "ToString (getProp cur ''name'') = Some a"
      and "ToString (getProp args ''name'') = Some b" by auto
    then have "\<exists>entry. nameChange (getProp cur ''name'') (getProp args ''name'') = Some entry"
      by (simp add: nameChange_def)
    with False show ?thesis by (auto simp add: changesArray_eq)
  qed
  then obtain changes where
    c: "changesArray args cur = (Inr changes :: 'e thrown + string list)" ..
  show ?thesis
    by (rule exI [of _ changes]) (simp add: c execute_fn_updated [OF v g u])
qed

text \<open>
  A request that renames the stored workflow, both names being strings.
\<close>

theorem success_result_witness:
  "validate [''workflowId'' \<mapsto> JString ''42'', ''name'' \<mapsto> JString ''B''] =
     (None :: string thrown option)
   \<and> getWorkflow memoryApi
       (getProp [''workflowId'' \<mapsto> JString ''42'', ''name'' \<mapsto> JString ''B''] ''workflowId'')
       (remote w0) = (Inr storedWorkflow, storedWorkflow)
   \<and> updateWorkflow memoryApi
       (getProp [''workflowId'' \<mapsto> JString ''42'', ''name'' \<mapsto> JString ''B''] ''workflowId'')
       (workflowData [''workflowId'' \<mapsto> JString ''42'', ''name'' \<mapsto> JString ''B'']
          storedWorkflow)
       storedWorkflow =
       (Inr (storedWorkflow ++
          workflowData [''workflowId'' \<mapsto> JString ''42'', ''name'' \<mapsto> JString ''B'']
            storedWorkflow),
        storedWorkflow ++
          workflowData [''workflowId'' \<mapsto> JString ''42'', ''name'' \<mapsto> JString ''B'']
            storedWorkflow)
   \<and> ToString (getProp storedWorkflow ''name'') \<noteq> None
   \<and> ToString (getProp [''workflowId'' \<mapsto> JString ''42'', ''name'' \<mapsto> JString ''B'']
        ''name'') \<noteq> None
   \<and> fst (execute_fn memoryApi Pair
        [''workflowId'' \<mapsto> JString ''42'', ''name'' \<mapsto> JString ''B''] w0) =
       Inr ([''id'' \<mapsto> JString ''42'', ''name'' \<mapsto> JString ''B'', ''active'' \<mapsto> JBool False],
            ''Workflow updated successfully. Changes: name: \"A\" '' @ arrow @ '' \"B\"'')"
proof -
  let ?args = "[''workflowId'' \<mapsto> JString ''42'', ''name'' \<mapsto> JString ''B'']"
  let ?upd = "storedWorkflow ++ workflowData ?args storedWorkflow"
  have v: "validate ?args = (None :: string thrown option)"
    by (simp add: validate_def getProp_def)
  have g: "getWorkflow memoryApi (getProp ?args ''workflowId'') (remote w0) =
      (Inr storedWorkflow, storedWorkflow)"
    by (simp add: memoryApi_def w0_def)
  have u: "updateWorkflow memoryApi (getProp ?args ''workflowId'')
      (workflowData ?args storedWorkflow) storedWorkflow = (Inr ?upd, ?upd)"
    by (simp add: memoryApi_def)
  have n1: "ToString (getProp storedWorkflow ''name'') \<noteq> None"
    by (simp add: getProp_def storedWorkflow_def)
  have n2: "ToString (getProp ?args ''name'') \<noteq> None"
    by (simp add: getProp_def)
  have c: "changesArray ?args storedWorkflow =
      (Inr [''name: \"A\" '' @ arrow @ '' \"B\"''] :: string thrown + string list)"
    by (simp add: changesArray_def getProp_def nameChange_def storedWorkflow_def)
  from success_result [OF v g u, of Pair] n1 n2 obtain changes where
    ch: "changesArray ?args storedWorkflow = (Inr changes :: string thrown + string list)"
    and r: "execute_fn memoryApi Pair ?args w0 =
         (Inr ([''id'' \<mapsto> getProp ?upd ''id'', ''name'' \<mapsto> getProp ?upd ''name'',
                ''active'' \<mapsto> getProp ?upd ''active''],
               ''Workflow updated successfully. '' @ changesSummary changes),
          \<lparr>calls = calls w0 @ [GetWorkflow (getProp ?args ''workflowId''),
             UpdateWorkflow (getProp ?args ''workflowId'') (workflowData ?args storedWorkflow)],
           remote = ?upd\<rparr>)"
    by blast
  from ch c have "changes = [''name: \"A\" '' @ arrow @ '' \"B\"'']" by simp
  with r have res: "fst (execute_fn memoryApi Pair ?args w0) =
       Inr ([''id'' \<mapsto> JString ''42'', ''name'' \<mapsto> JString ''B'', ''active'' \<mapsto> JBool False],
            ''Workflow updated successfully. Changes: name: \"A\" '' @ arrow @ '' \"B\"'')"
    by (simp add: getProp_def map_add_def workflowData_apply storedWorkflow_def
        changesSummary_def)
  show ?thesis
    by (rule conjI [OF v conjI [OF g conjI [OF u conjI [OF n1 conjI [OF n2 res]]]]])
qed

text \<open>
  C7, as the claim states it, fails: both remote calls succeed for a request whose
  \<^verbatim>\<open>name\<close> is an object with a property named \<^verbatim>\<open>toString\<close>, and the operation
  then fails: the template literal of line 70 converts the name to a string, which
  throws a \<^verbatim>\<open>TypeError\<close>.
\<close>

theorem unprintable_name_counterexample:
  "fst (getWorkflow memoryApi (JString ''42'') (remote w0)) = Inr storedWorkflow
   \<and> fst (updateWorkflow memoryApi (JString ''42'')
        (workflowData
           [''workflowId'' \<mapsto> JString ''42'',
            ''name'' \<mapsto> JObject 7 [(''toString'', JNumber ''1'')]] storedWorkflow)
        storedWorkflow) =
       Inr (storedWorkflow ++
         workflowData
           [''workflowId'' \<mapsto> JString ''42'',
            ''name'' \<mapsto> JObject 7 [(''toString'', JNumber ''1'')]] storedWorkflow)
   \<and> calls (snd (execute_fn memoryApi Pair
        [''workflowId'' \<mapsto> JString ''42'',
         ''name'' \<mapsto> JObject 7 [(''toString'', JNumber ''1'')]] w0)) =
       [GetWorkflow (JString ''42''),
        UpdateWorkflow (JString ''42'')
          (workflowData
             [''workflowId'' \<mapsto> JString ''42'',
              ''name'' \<mapsto> JObject 7 [(''toString'', JNumber ''1'')]] storedWorkflow)]
   \<and> fst (execute_fn memoryApi Pair
        [''workflowId'' \<mapsto> JString ''42'',
         ''name'' \<mapsto> JObject 7 [(''toString'', JNumber ''1'')]] w0) = Inl TypeError"
proof -
  let ?args = "[''workflowId'' \<mapsto> JString ''42'',
    ''name'' \<mapsto> JObject 7 [(''toString'', JNumber ''1'')]]"
  have v: "validate ?args = (None :: string thrown option)"
    by (simp add: validate_def getProp_def)
  have g: "getWorkflow memoryApi (getProp ?args ''workflowId'') (remote w0) =
      (Inr storedWorkflow, storedWorkflow)"
    by (simp add: memoryApi_def w0_def)
  have u: "updateWorkflow memoryApi (getProp ?args ''workflowId'')
      (workflowData ?args storedWorkflow) storedWorkflow =
      (Inr (storedWorkflow ++ workflowData ?args storedWorkflow),
       storedWorkflow ++ workflowData ?args storedWorkflow)"
    by (simp add: memoryApi_def)
  have c: "changesArray ?args storedWorkflow = (Inl TypeError :: string thrown + string list)"
    by (simp add: changesArray_def getProp_def nameChange_def storedWorkflow_def)
  show ?thesis
    unfolding execute_fn_updated [OF v g u, of Pair] c
    by (simp add: getProp_def memoryApi_def w0_def)
qed

end
